theory Spec2Isabelle
  imports Complex_Main "HOL-Library.Sublist"
begin

section \<open>Python values shared by the two components\<close>

text \<open>
  An exception is its class and the text that \<^verbatim>\<open>str(e)\<close> gives; both components put that
  text into the message they report.
\<close>

datatype exc_kind =
  KeyError | IndexError | TypeError | ValueError | OverflowError | AttributeError
  | IntCastingNaNError | RequestException | OtherException

datatype py_exception = PyExc exc_kind string

fun exc_str :: "py_exception \<Rightarrow> string" where
  "exc_str (PyExc k msg) = msg"

text \<open>\<^verbatim>\<open>str(n)\<close> of a Python integer, as the f-strings of the source print it.\<close>

fun digits_of :: "nat \<Rightarrow> string" where
  "digits_of n =
     (if n < 10 then [''0123456789'' ! n]
      else digits_of (n div 10) @ [''0123456789'' ! (n mod 10)])"

declare digits_of.simps [simp del]

definition str_int :: "int \<Rightarrow> string" where
  "str_int i = (if i < 0 then ''-'' @ digits_of (nat (- i)) else digits_of (nat i))"

section \<open>Notifier: \<^verbatim>\<open>trigger_restock_webhook\<close>\<close>

text \<open>
  The body of a response as \<^verbatim>\<open>resp.json()\<close> parses it. An object is the list of its
  members, one entry for each key.
\<close>

datatype json =
  JNull | JBool bool | JNum real | JStr string | JArr "json list"
  | JObj "(string \<times> json) list"

text \<open>
  The response of \<^verbatim>\<open>requests.post\<close>: \<open>resp_text\<close> is \<^verbatim>\<open>resp.text\<close>, and \<open>resp_json\<close> is
  what \<^verbatim>\<open>resp.json()\<close> returns, \<open>None\<close> when it raises because the body is not JSON.
\<close>

record response =
  status_code :: int
  resp_text :: string
  resp_json :: "json option"

text \<open>One call of \<^verbatim>\<open>requests.post(url, json=payload, timeout=10)\<close>.\<close>

record request =
  req_url :: string
  req_json :: json
  req_timeout :: nat

text \<open>Python's truth value of a parsed JSON value (\<^verbatim>\<open>if hint\<close>, \<^verbatim>\<open>a or b\<close>).\<close>

fun truthy :: "json \<Rightarrow> bool" where
  "truthy JNull = False"
| "truthy (JBool b) = b"
| "truthy (JNum x) = (x \<noteq> 0)"
| "truthy (JStr s) = (s \<noteq> [])"
| "truthy (JArr xs) = (xs \<noteq> [])"
| "truthy (JObj kvs) = (kvs \<noteq> [])"

text \<open>\<^verbatim>\<open>d.get(k)\<close> on a dict: the value, or \<^verbatim>\<open>None\<close> for a key that is absent.\<close>

definition dict_get :: "(string \<times> json) list \<Rightarrow> string \<Rightarrow> json" where
  "dict_get kvs k = (case map_of kvs k of None \<Rightarrow> JNull | Some v \<Rightarrow> v)"

text \<open>
  Lines 180 to 186: \<^verbatim>\<open>parsed.get('hint') or parsed.get('message')\<close> inside a
  \<^verbatim>\<open>try\<close> whose handler sets the hint to \<^verbatim>\<open>None\<close>. The handler runs when the body is not
  JSON and when the parsed value is not a dict (it has no \<^verbatim>\<open>get\<close>).
\<close>

definition extract_hint :: "response \<Rightarrow> json" where
  "extract_hint resp =
     (case resp_json resp of
        None \<Rightarrow> JNull
      | Some parsed \<Rightarrow>
          (case parsed of
             JObj kvs \<Rightarrow>
               (if truthy (dict_get kvs ''hint'') then dict_get kvs ''hint''
                else dict_get kvs ''message'')
           | _ \<Rightarrow> JNull))"

text \<open>
  What an f-string prints for a hint: a string is printed as it is; for any other value
  Python prints its \<^verbatim>\<open>repr\<close>, which the model takes as the parameter \<open>repr\<close>.
\<close>

definition py_str :: "(json \<Rightarrow> string) \<Rightarrow> json \<Rightarrow> string" where
  "py_str repr j = (case j of JStr s \<Rightarrow> s | _ \<Rightarrow> repr j)"

text \<open>Line 188: \<^verbatim>\<open>hint_text = hint if hint else resp.text\<close>, as the f-string prints it.\<close>

definition hint_text :: "(json \<Rightarrow> string) \<Rightarrow> response \<Rightarrow> string" where
  "hint_text repr resp =
     (if truthy (extract_hint resp) then py_str repr (extract_hint resp) else resp_text resp)"

definition guidance :: string where
  "guidance =
     ''Ensure the workflow with this webhook is 'Activated' in n8n, '' @
     ''or click 'Execute workflow' in the editor to register the temporary webhook before calling it.''"

text \<open>The em dash of the 404 message, in UTF-8.\<close>

definition em_dash :: string where
  "em_dash = [CHR 0xE2, CHR 0x80, CHR 0x94]"

text \<open>
  \<^verbatim>\<open>trigger_restock_webhook(webhook_url, items)\<close>. The network is the parameter \<open>post\<close>:
  it returns the response or the exception that \<^verbatim>\<open>requests.post\<close> raises. The result is
  the pair \<open>(success, message)\<close> of the source together with the list of the requests sent,
  so that "no network call" is a statement about the result. An unconfigured URL is
  \<open>None\<close> or the empty string (\<^verbatim>\<open>not webhook_url\<close>).
\<close>

definition trigger_restock_webhook ::
  "(request \<Rightarrow> py_exception + response) \<Rightarrow> (json \<Rightarrow> string) \<Rightarrow> string option \<Rightarrow> json list
     \<Rightarrow> (bool \<times> string) \<times> request list" where
  "trigger_restock_webhook post repr webhook_url items =
     (case webhook_url of
        None \<Rightarrow> ((False, ''Webhook URL not configured''), [])
      | Some url \<Rightarrow>
          if url = [] then ((False, ''Webhook URL not configured''), [])
          else
            let payload = JObj [(''items'', JArr items)];
                req = \<lparr>req_url = url, req_json = payload, req_timeout = 10\<rparr>
            in (case post req of
                  Inl e \<Rightarrow> ((False, ''Error triggering webhook: '' @ exc_str e), [req])
                | Inr resp \<Rightarrow>
                    if 200 \<le> status_code resp \<and> status_code resp < 300
                    then ((True, ''Restock webhook triggered successfully''), [req])
                    else if status_code resp = 404
                    then ((False, ''Webhook error '' @ str_int (status_code resp) @ '': '' @
                             hint_text repr resp @ '' '' @ em_dash @ '' '' @ guidance), [req])
                    else ((False, ''Webhook error '' @ str_int (status_code resp) @ '': '' @
                             hint_text repr resp), [req])))"

section \<open>Tables\<close>

text \<open>
  A number as pandas holds it: an integer, a finite float, an infinite float or the
  float \<^verbatim>\<open>nan\<close>, which also stands for a missing value. Floats are taken as reals; the
  rounding of binary floats is outside this model. pandas holds an integer in 64 bits,
  signed or unsigned, and reads a larger one as a float.
\<close>

datatype number = NaN | IntV int | FloatV real | PosInf | NegInf

datatype cell = Num number | Str string

text \<open>
  The places where pandas raises in the functions below: \<^verbatim>\<open>df.columns[i]\<close> on a frame of
  \<open>n\<close> columns, \<^verbatim>\<open>df[label]\<close> for a label that is absent, \<^verbatim>\<open>to_numeric\<close> on a frame,
  \<^verbatim>\<open>astype(int)\<close> on a value that is not finite, and the comparison of a text with a number.
\<close>

datatype lib_error =
  ColumnIndex nat nat | LabelMissing string | NumericOfFrame | NonFiniteToInt
  | TextCompared number

text \<open>
  What the functions below take from Python and pandas without fixing it: \<^verbatim>\<open>str.lower\<close>
  and \<^verbatim>\<open>str.strip\<close> (which know all of Unicode), the number that \<^verbatim>\<open>pd.to_numeric\<close> reads
  from a text (\<open>NaN\<close> when it reads none), the integer that the platform gives when a float
  outside the 64-bit range is converted, and the text of the exceptions that pandas
  raises. A text is the list of the bytes of its UTF-8 form. Every property below holds
  for any such library.
\<close>

record library =
  str_lower :: "string \<Rightarrow> string"
  str_strip :: "string \<Rightarrow> string"
  read_number :: "string \<Rightarrow> number"
  cast_overflow :: "real \<Rightarrow> int"
  error_text :: "lib_error \<Rightarrow> string"

text \<open>
  A \<^verbatim>\<open>DataFrame\<close>: the length of its index and its columns in order, each a label with
  its values. A label may occur more than once. \<^verbatim>\<open>pd.DataFrame()\<close> has neither rows nor
  columns.
\<close>

record dataframe =
  nrows :: nat
  cols :: "(string \<times> cell list) list"

definition empty_frame :: dataframe where
  "empty_frame = \<lparr>nrows = 0, cols = []\<rparr>"

definition columns :: "dataframe \<Rightarrow> string list" where
  "columns df = map fst (cols df)"

text \<open>Every column of a frame has one value for each row.\<close>

definition wf_frame :: "dataframe \<Rightarrow> bool" where
  "wf_frame df = list_all (\<lambda>c. length (snd c) = nrows df) (cols df)"

text \<open>\<^verbatim>\<open>df.columns[i]\<close>, which raises \<^verbatim>\<open>IndexError\<close> past the last column.\<close>

definition column_label :: "library \<Rightarrow> dataframe \<Rightarrow> nat \<Rightarrow> py_exception + string" where
  "column_label lib df i =
     (if i < length (cols df) then Inr (columns df ! i)
      else Inl (PyExc IndexError (error_text lib (ColumnIndex i (length (cols df))))))"

text \<open>The columns that \<^verbatim>\<open>df[label]\<close> selects: none, one (a series) or several (a frame).\<close>

definition select :: "string \<Rightarrow> dataframe \<Rightarrow> cell list list" where
  "select label df = map snd (filter (\<lambda>c. fst c = label) (cols df))"

text \<open>
  \<^verbatim>\<open>df[label] = values\<close>: every column with that label gets the values; a new label is
  appended as the last column.
\<close>

definition setitem :: "string \<Rightarrow> cell list \<Rightarrow> dataframe \<Rightarrow> dataframe" where
  "setitem label vs df =
     (if label \<in> set (columns df)
      then df\<lparr>cols := map (\<lambda>c. if fst c = label then (fst c, vs) else c) (cols df)\<rparr>
      else df\<lparr>cols := cols df @ [(label, vs)]\<rparr>)"

text \<open>\<^verbatim>\<open>df[mask]\<close> for a boolean series: the rows where the mask is true.\<close>

definition take_rows :: "bool list \<Rightarrow> dataframe \<Rightarrow> dataframe" where
  "take_rows keep df =
     \<lparr>nrows = length (filter id keep),
      cols = map (\<lambda>c. (fst c, map snd (filter fst (zip keep (snd c))))) (cols df)\<rparr>"

text \<open>
  \<^verbatim>\<open>df.dropna(subset=labels)\<close>: a row stays when none of the columns with one of the
  labels is missing in it.
\<close>

definition notna_mask :: "string list \<Rightarrow> dataframe \<Rightarrow> bool list" where
  "notna_mask labels df =
     map (\<lambda>i. list_all (\<lambda>c. snd c ! i \<noteq> Num NaN)
                (filter (\<lambda>c. fst c \<in> set labels) (cols df)))
       [0..<nrows df]"

definition dropna :: "string list \<Rightarrow> dataframe \<Rightarrow> dataframe" where
  "dropna labels df = take_rows (notna_mask labels df) df"

text \<open>\<^verbatim>\<open>df.rename(columns=d)\<close>: a label that is a key of the dict is replaced.\<close>

definition rename_columns :: "(string \<rightharpoonup> string) \<Rightarrow> dataframe \<Rightarrow> dataframe" where
  "rename_columns d df =
     df\<lparr>cols := map (\<lambda>c. (case d (fst c) of Some n \<Rightarrow> n | None \<Rightarrow> fst c, snd c)) (cols df)\<rparr>"

text \<open>
  \<^verbatim>\<open>df.to_dict('records')\<close>: for each row the (label, value) pairs, in column order, from
  which Python builds the dict of the row.
\<close>

definition to_dict_records :: "dataframe \<Rightarrow> (string \<times> cell) list list" where
  "to_dict_records df = map (\<lambda>i. map (\<lambda>c. (fst c, snd c ! i)) (cols df)) [0..<nrows df]"

subsection \<open>Numeric coercion\<close>

text \<open>
  \<^verbatim>\<open>pd.to_numeric(..., errors='coerce')\<close> on one value. Which texts pandas reads as
  numbers is the library's grammar, \<open>read_number\<close>.
\<close>

definition to_numeric :: "library \<Rightarrow> cell \<Rightarrow> number" where
  "to_numeric lib c = (case c of Num x \<Rightarrow> x | Str s \<Rightarrow> read_number lib s)"

definition fillna :: "int \<Rightarrow> number \<Rightarrow> number" where
  "fillna v x = (if x = NaN then IntV v else x)"

text \<open>Conversion of a float to an integer drops the fraction.\<close>

definition py_trunc :: "real \<Rightarrow> int" where
  "py_trunc x = (if 0 \<le> x then \<lfloor>x\<rfloor> else \<lceil>x\<rceil>)"

definition is_finite :: "number \<Rightarrow> bool" where
  "is_finite x = (case x of IntV n \<Rightarrow> True | FloatV r \<Rightarrow> True | _ \<Rightarrow> False)"

text \<open>
  The result of \<^verbatim>\<open>astype(int)\<close> is a signed integer of 64 bits: an integer outside that
  range wraps around (the unsigned 2^63 becomes -2^63).
\<close>

definition wrap64 :: "int \<Rightarrow> int" where
  "wrap64 n = (n + 2 ^ 63) mod 2 ^ 64 - 2 ^ 63"

text \<open>
  One finite value under \<^verbatim>\<open>astype(int)\<close>. An integer of 64 bits, signed or unsigned,
  wraps around; a larger one is a float for pandas. A float inside the signed range
  loses its fraction; for a float outside of it the value is the platform's, some
  integer of 64 bits.
\<close>

definition int_of_number :: "library \<Rightarrow> number \<Rightarrow> int" where
  "int_of_number lib x =
     (case x of
        IntV n \<Rightarrow>
          if - (2 ^ 63) \<le> n \<and> n < 2 ^ 64 then wrap64 n
          else wrap64 (cast_overflow lib (of_int n))
      | FloatV r \<Rightarrow>
          if - (2 ^ 63) \<le> py_trunc r \<and> py_trunc r < 2 ^ 63 then py_trunc r
          else wrap64 (cast_overflow lib r)
      | _ \<Rightarrow> 0)"

text \<open>\<^verbatim>\<open>series.astype(int)\<close>: pandas refuses a series with a value that is not finite.\<close>

definition astype_int :: "library \<Rightarrow> number list \<Rightarrow> py_exception + int list" where
  "astype_int lib xs =
     (if list_all is_finite xs then Inr (map (int_of_number lib) xs)
      else Inl (PyExc IntCastingNaNError (error_text lib NonFiniteToInt)))"

text \<open>
  \<^verbatim>\<open>pd.to_numeric(df[label], errors='coerce').fillna(0).astype(int)\<close>. When the label
  selects several columns, \<^verbatim>\<open>df[label]\<close> is a frame and \<^verbatim>\<open>to_numeric\<close> raises.
\<close>

definition coerce_int :: "library \<Rightarrow> dataframe \<Rightarrow> string \<Rightarrow> py_exception + int list" where
  "coerce_int lib df label =
     (case select label df of
        [] \<Rightarrow> Inl (PyExc KeyError (error_text lib (LabelMissing label)))
      | [vs] \<Rightarrow> astype_int lib (map (\<lambda>c. fillna 0 (to_numeric lib c)) vs)
      | _ \<Rightarrow> Inl (PyExc TypeError (error_text lib NumericOfFrame)))"

subsection \<open>An instance of the library, for the evaluated examples\<close>

text \<open>
  The instance fixes the library on the texts of the examples only: texts of ASCII
  characters, which are numbers only when they are plain decimal integers with an
  optional minus sign, within the 64-bit range. No example depends on the text of an
  exception.

  \<^verbatim>\<open>pd.to_numeric\<close> on such a text: the integer, or \<open>NaN\<close> for a text without digits.
\<close>

fun digits_value :: "string \<Rightarrow> nat \<Rightarrow> nat option" where
  "digits_value [] acc = Some acc"
| "digits_value (c # cs) acc =
     (case map_of (zip ''0123456789'' [0..<10]) c of
        None \<Rightarrow> None
      | Some d \<Rightarrow> digits_value cs (10 * acc + d))"

definition parse_decimal :: "string \<Rightarrow> number" where
  "parse_decimal s =
     (case s of
        [] \<Rightarrow> NaN
      | c # cs \<Rightarrow>
          if c = CHR ''-''
          then (if cs = [] then NaN
                else case digits_value cs 0 of None \<Rightarrow> NaN | Some n \<Rightarrow> IntV (- int n))
          else (case digits_value s 0 of None \<Rightarrow> NaN | Some n \<Rightarrow> IntV (int n)))"

text \<open>
  \<^verbatim>\<open>lower()\<close> on the letters A to Z and \<^verbatim>\<open>strip()\<close> on the white space of ASCII: what
  Python does on a text of ASCII characters.
\<close>

definition ascii_lower_char :: "char \<Rightarrow> char" where
  "ascii_lower_char c =
     (case map_of (zip ''ABCDEFGHIJKLMNOPQRSTUVWXYZ'' ''abcdefghijklmnopqrstuvwxyz'') c of
        Some d \<Rightarrow> d
      | None \<Rightarrow> c)"

definition ascii_lower :: "string \<Rightarrow> string" where
  "ascii_lower s = map ascii_lower_char s"

definition ascii_space :: "char \<Rightarrow> bool" where
  "ascii_space c = (c \<in> set [CHR 0x20, CHR 0x09, CHR 0x0A, CHR 0x0B, CHR 0x0C, CHR 0x0D,
                              CHR 0x1C, CHR 0x1D, CHR 0x1E, CHR 0x1F])"

definition ascii_strip :: "string \<Rightarrow> string" where
  "ascii_strip s = rev (dropWhile ascii_space (rev (dropWhile ascii_space s)))"

definition ascii_library :: library where
  "ascii_library =
     \<lparr>str_lower = ascii_lower, str_strip = ascii_strip, read_number = parse_decimal,
      cast_overflow = (\<lambda>r. - (2 ^ 63)), error_text = (\<lambda>e. ''library error'')\<rparr>"

section \<open>Normalizer: \<^verbatim>\<open>load_data_from_gsheet\<close>\<close>

text \<open>\<^verbatim>\<open>s.split(sep)\<close> for a separator that is not empty.\<close>

fun split_from :: "string \<Rightarrow> string \<Rightarrow> string \<Rightarrow> string list" where
  "split_from sep acc [] = [rev acc]"
| "split_from sep acc (c # cs) =
     (if sep \<noteq> [] \<and> prefix sep (c # cs)
      then rev acc # split_from sep [] (drop (length sep) (c # cs))
      else split_from sep (c # acc) cs)"

definition py_split :: "string \<Rightarrow> string \<Rightarrow> string list" where
  "py_split s sep = split_from sep [] s"

text \<open>Lines 59 to 65: the canonical names with their aliases, in the order of the dict.\<close>

definition column_map :: "(string \<times> string list) list" where
  "column_map =
     [(''Available Stock'', [''stock'', ''qty'', ''quantity'', ''inventory'', ''available'',
                             ''on hand'', ''available stock(sync with shopify)'']),
      (''Restock Level'', [''restock level'', ''threshold'', ''min stock'', ''reorder point'',
                           ''minimum'']),
      (''Product Name'', [''product name'', ''name'', ''title'', ''item name'']),
      (''SKU'', [''sku'', ''id'', ''item no'', ''item number'', ''barcode''])]"

text \<open>
  Line 68: \<^verbatim>\<open>{c.lower().strip(): c for c in df.columns}\<close>. A later column with the same
  key replaces an earlier one.
\<close>

definition current_cols :: "library \<Rightarrow> string list \<Rightarrow> (string \<rightharpoonup> string)" where
  "current_cols lib cs = fold (\<lambda>c m. m(str_strip lib (str_lower lib c) \<mapsto> c)) cs Map.empty"

text \<open>
  Lines 74 to 78, the inner loop: the first alias that is a key of \<open>cc\<close> maps the header
  stored under it to the internal name, and the loop ends.
\<close>

fun map_aliases ::
  "(string \<rightharpoonup> string) \<Rightarrow> string \<Rightarrow> string list \<Rightarrow> (string \<rightharpoonup> string) \<Rightarrow> (string \<rightharpoonup> string)" where
  "map_aliases cc internal_name [] rd = rd"
| "map_aliases cc internal_name (alias # aliases) rd =
     (case cc alias of
        Some c \<Rightarrow> rd(c \<mapsto> internal_name)
      | None \<Rightarrow> map_aliases cc internal_name aliases rd)"

text \<open>Lines 70 to 78: the outer loop over a map of names and aliases.\<close>

definition build_rename_dict ::
  "(string \<times> string list) list \<Rightarrow> (string \<rightharpoonup> string) \<Rightarrow> (string \<rightharpoonup> string)" where
  "build_rename_dict cmap cc = fold (\<lambda>(internal_name, aliases). map_aliases cc internal_name aliases) cmap Map.empty"

definition rename_dict :: "library \<Rightarrow> string list \<Rightarrow> (string \<rightharpoonup> string)" where
  "rename_dict lib cs = build_rename_dict column_map (current_cols lib cs)"

text \<open>Lines 100 to 102: the status of a row.\<close>

definition status :: "int \<Rightarrow> int \<Rightarrow> string" where
  "status available restock =
     (if available \<le> 10 then ''Critical''
      else if available < restock then ''Low Stock''
      else ''In Stock'')"

text \<open>The warning sign, with its variation selector, of the message of line 89, in UTF-8.\<close>

definition warning_sign :: string where
  "warning_sign = [CHR 0xE2, CHR 0x9A, CHR 0xA0, CHR 0xEF, CHR 0xB8, CHR 0x8F]"

definition no_stock_message :: string where
  "no_stock_message = warning_sign @ '' Could not detect a 'Stock' column. Please check headers.''"

text \<open>
  Lines 46 to 105, on the frame that \<^verbatim>\<open>pd.read_csv\<close> returned. The result is an exception
  (left for the handler of line 107) or the pair of the message given to \<^verbatim>\<open>st.error\<close>, if
  any, and the returned frame. The statuses are computed from the two columns as they
  are after the conversion to integers. For a frame without rows the column of statuses
  is taken to be empty.
\<close>

definition normalize_frame ::
  "library \<Rightarrow> dataframe \<Rightarrow> py_exception + (string option \<times> dataframe)" where
  "normalize_frame lib df =
     (case column_label lib df 0 of
        Inl e \<Rightarrow> Inl e
      | Inr c0 \<Rightarrow>
     (case column_label lib df 1 of
        Inl e \<Rightarrow> Inl e
      | Inr c1 \<Rightarrow>
          let df1 = dropna [c0, c1] df;
              df2 = rename_columns (rename_dict lib (columns df1)) df1
          in if ''Available Stock'' \<notin> set (columns df2)
             then Inr (Some no_stock_message, empty_frame)
             else
               let df3 = (if ''Restock Level'' \<notin> set (columns df2)
                          then setitem ''Restock Level'' (replicate (nrows df2) (Num (IntV 10))) df2
                          else df2)
               in (case coerce_int lib df3 ''Available Stock'' of
                     Inl e \<Rightarrow> Inl e
                   | Inr available \<Rightarrow>
                  (let df4 = setitem ''Available Stock'' (map (\<lambda>n. Num (IntV n)) available) df3
                   in (case coerce_int lib df4 ''Restock Level'' of
                         Inl e \<Rightarrow> Inl e
                       | Inr restock \<Rightarrow>
                           let df5 = setitem ''Restock Level'' (map (\<lambda>n. Num (IntV n)) restock) df4;
                               df6 = setitem ''Status''
                                       (map Str (map2 status available restock)) df5
                           in Inr (None, df6))))))"

text \<open>Lines 34 to 41: the address of the CSV export, for a URL that holds \<^verbatim>\<open>/d/\<close>.\<close>

definition csv_export_url :: "string \<Rightarrow> string" where
  "csv_export_url spreadsheet_url =
     (let sheet_id = hd (py_split (py_split spreadsheet_url ''/d/'' ! 1) ''/'')
      in ''https://docs.google.com/spreadsheets/d/'' @ sheet_id @ ''/export?format=csv&gid=0'')"

text \<open>
  \<^verbatim>\<open>load_data_from_gsheet()\<close>. Its surroundings are parameters: \<open>secret\<close> is what the
  lookup of \<^verbatim>\<open>st.secrets["connections"]["gsheets"]["spreadsheet"]\<close> gives (the URL or the
  exception it raises), \<open>read_csv\<close> is \<^verbatim>\<open>pd.read_csv\<close> on an address, and \<open>lib\<close> is the
  library. The result is the message shown by \<^verbatim>\<open>st.error\<close>, if any,
  and the returned frame; the handler of line 107 turns every exception into a message
  and the empty frame.
\<close>

definition load_data_from_gsheet ::
  "(py_exception + string) \<Rightarrow> (string \<Rightarrow> py_exception + dataframe) \<Rightarrow> library
     \<Rightarrow> string option \<times> dataframe" where
  "load_data_from_gsheet secret read_csv lib =
     (case (case secret of
              Inl e \<Rightarrow> Inl e
            | Inr spreadsheet_url \<Rightarrow>
                if sublist ''/d/'' spreadsheet_url
                then (case read_csv (csv_export_url spreadsheet_url) of
                        Inl e \<Rightarrow> Inl e
                      | Inr df \<Rightarrow> normalize_frame lib df)
                else Inr (Some ''Invalid Google Sheet URL format'', empty_frame)) of
        Inl e \<Rightarrow> (Some (''Error loading data from Google Sheets: '' @ exc_str e), empty_frame)
      | Inr result \<Rightarrow> result)"

section \<open>\<^verbatim>\<open>get_critical_items\<close>\<close>

text \<open>\<^verbatim>\<open>df.empty\<close>: the frame has no row or no column.\<close>

definition frame_empty :: "dataframe \<Rightarrow> bool" where
  "frame_empty df = (nrows df = 0 \<or> cols df = [])"

text \<open>\<^verbatim>\<open>int(threshold)\<close> for a number: a float loses its fraction, and a float that is not
  finite raises.\<close>

definition py_int :: "number \<Rightarrow> py_exception + int" where
  "py_int x =
     (case x of
        IntV n \<Rightarrow> Inr n
      | FloatV r \<Rightarrow> Inr (py_trunc r)
      | NaN \<Rightarrow> Inl (PyExc ValueError ''cannot convert float NaN to integer'')
      | _ \<Rightarrow> Inl (PyExc OverflowError ''cannot convert float infinity to integer''))"

text \<open>\<^verbatim>\<open>x <= y\<close> on numbers: false when one of them is \<^verbatim>\<open>nan\<close>.\<close>

fun num_le :: "number \<Rightarrow> number \<Rightarrow> bool" where
  "num_le NaN y = False"
| "num_le x NaN = False"
| "num_le NegInf y = True"
| "num_le x PosInf = True"
| "num_le PosInf y = False"
| "num_le x NegInf = False"
| "num_le (IntV a) (IntV b) = (a \<le> b)"
| "num_le (IntV a) (FloatV b) = (of_int a \<le> b)"
| "num_le (FloatV a) (IntV b) = (a \<le> of_int b)"
| "num_le (FloatV a) (FloatV b) = (a \<le> b)"

text \<open>
  \<^verbatim>\<open>series <= threshold\<close> on the values as they are (line 126), as pandas 3 does it: the
  comparison with \<^verbatim>\<open>nan\<close> is false everywhere; otherwise pandas raises \<^verbatim>\<open>TypeError\<close> when
  the series holds a text.
\<close>

definition series_le :: "library \<Rightarrow> cell list \<Rightarrow> number \<Rightarrow> py_exception + bool list" where
  "series_le lib vs t =
     (if t = NaN then Inr (map (\<lambda>c. False) vs)
      else if list_ex (\<lambda>c. case c of Str s \<Rightarrow> True | Num x \<Rightarrow> False) vs
      then Inl (PyExc TypeError (error_text lib (TextCompared t)))
      else Inr (map (\<lambda>c. case c of Num x \<Rightarrow> num_le x t | Str s \<Rightarrow> False) vs))"

text \<open>
  \<^verbatim>\<open>get_critical_items(df, threshold)\<close>, lines 114 to 127. The frame is \<open>None\<close> or a
  frame, the threshold a number. The result is the list of records or the exception
  that leaves the function. The mask of line 123 is computed inside the \<^verbatim>\<open>try\<close>; when
  that raises (the label selects several columns, so that \<^verbatim>\<open>to_numeric\<close> gets a frame,
  or \<^verbatim>\<open>int(threshold)\<close> fails), line 126 computes it outside of any handler. For a
  label that selects several columns, what line 126 and line 127 then give is left to
  the parameter \<open>frame_fallback\<close>.
\<close>

definition get_critical_items ::
  "library \<Rightarrow> (dataframe \<Rightarrow> number \<Rightarrow> py_exception + (string \<times> cell) list list)
     \<Rightarrow> dataframe option \<Rightarrow> number \<Rightarrow> py_exception + (string \<times> cell) list list" where
  "get_critical_items lib frame_fallback df threshold =
     (case df of
        None \<Rightarrow> Inr []
      | Some df \<Rightarrow>
          if frame_empty df then Inr []
          else if ''Available Stock'' \<notin> set (columns df) then Inr []
          else
            (case (case select ''Available Stock'' df of
                     [vs] \<Rightarrow>
                       (case py_int threshold of
                          Inl e \<Rightarrow> Inl e
                        | Inr t \<Rightarrow>
                            Inr (map (\<lambda>c. num_le (fillna 0 (to_numeric lib c)) (IntV t)) vs))
                   | _ \<Rightarrow> Inl (PyExc TypeError (error_text lib NumericOfFrame))) of
               Inr keep \<Rightarrow> Inr (to_dict_records (take_rows keep df))
             | Inl e \<Rightarrow>
                 (case select ''Available Stock'' df of
                    [vs] \<Rightarrow>
                      (case series_le lib vs threshold of
                         Inl e' \<Rightarrow> Inl e'
                       | Inr keep \<Rightarrow> Inr (to_dict_records (take_rows keep df)))
                  | _ \<Rightarrow> frame_fallback df threshold)))"

section \<open>Notions used to state the properties\<close>

text \<open>
  The value that line 96 (and line 97) stores for a cell: the number read from it, 0 for
  a missing one, without its fraction.
\<close>

definition coerce_cell :: "library \<Rightarrow> cell \<Rightarrow> int" where
  "coerce_cell lib c = int_of_number lib (fillna 0 (to_numeric lib c))"

text \<open>
  \<^verbatim>\<open>row[label]\<close> on the dict that Python builds from the pairs of a record: the last
  pair with the label gives the value.
\<close>

definition field :: "(string \<times> cell) list \<Rightarrow> string \<Rightarrow> cell option" where
  "field row label = map_of (rev row) label"

text \<open>A label that occurs in a frame and has the values \<open>vs\<close> wherever it occurs.\<close>

definition column_is :: "dataframe \<Rightarrow> string \<Rightarrow> cell list \<Rightarrow> bool" where
  "column_is df l vs =
     (l \<in> set (columns df) \<and> list_all (\<lambda>c. fst c \<noteq> l \<or> snd c = vs) (cols df))"

text \<open>
  A header matches an alias of a canonical field when its lowercased, stripped text is in
  the alias list that \<open>column_map\<close> declares for the field.
\<close>

definition header_matches :: "library \<Rightarrow> string \<Rightarrow> string \<Rightarrow> bool" where
  "header_matches lib internal_name h =
     (case map_of column_map internal_name of
        Some aliases \<Rightarrow> str_strip lib (str_lower lib h) \<in> set aliases
      | None \<Rightarrow> False)"

subsection \<open>Sheets for the evaluated examples\<close>

text \<open>
  The configured address, and a \<^verbatim>\<open>read_csv\<close> that serves one sheet at the export address
  of that spreadsheet and fails elsewhere.
\<close>

definition example_url :: string where
  "example_url = ''https://docs.google.com/spreadsheets/d/abc123/edit#gid=0''"

definition example_read_csv :: "dataframe \<Rightarrow> string \<Rightarrow> py_exception + dataframe" where
  "example_read_csv sheet u =
     (if u = ''https://docs.google.com/spreadsheets/d/abc123/export?format=csv&gid=0''
      then Inr sheet
      else Inl (PyExc OtherException ''HTTP Error 404: Not Found''))"

text \<open>The row of the spec's example (\<open>Qty\<close> 5, \<open>Min Stock\<close> 10, \<open>Name\<close> Widget) and a second row.\<close>

definition example_sheet :: dataframe where
  "example_sheet =
     \<lparr>nrows = 2,
      cols = [(''Qty'', [Num (IntV 5), Num (IntV 40)]),
              (''Min Stock'', [Num (IntV 10), Num (IntV 50)]),
              (''Name'', [Str ''Widget'', Str ''Gadget''])]\<rparr>"

text \<open>
  A sheet whose first header matches the alias \<open>qty\<close> only after lowercasing and stripping,
  and whose second header matches the later alias \<open>inventory\<close> of the same field.
\<close>

definition priority_sheet :: dataframe where
  "priority_sheet =
     \<lparr>nrows = 1,
      cols = [(''  QTY '', [Num (IntV 5)]),
              (''Inventory'', [Num (IntV 7)]),
              (''Name'', [Str ''Widget''])]\<rparr>"

text \<open>A sheet with a quantity and a name, and no column for the restock level.\<close>

definition no_restock_sheet :: dataframe where
  "no_restock_sheet =
     \<lparr>nrows = 2,
      cols = [(''Qty'', [Num (IntV 5), Num (IntV 40)]),
              (''Name'', [Str ''Widget'', Str ''Gadget''])]\<rparr>"

text \<open>
  A sheet whose stock column has the canonical name itself, which is not one of the
  aliases.
\<close>

definition literal_stock_sheet :: dataframe where
  "literal_stock_sheet =
     \<lparr>nrows = 1,
      cols = [(''Available Stock'', [Num (IntV 7)]),
              (''Name'', [Str ''Widget''])]\<rparr>"

text \<open>A sheet without any stock column.\<close>

definition no_stock_sheet :: dataframe where
  "no_stock_sheet =
     \<lparr>nrows = 1,
      cols = [(''Supplier'', [Str ''Acme'']),
              (''Name'', [Str ''Widget''])]\<rparr>"

text \<open>
  A sheet whose stock column holds a text that is no number, a missing value, a negative
  number and a positive number.
\<close>

definition mixed_stock_sheet :: dataframe where
  "mixed_stock_sheet =
     \<lparr>nrows = 4,
      cols = [(''Name'', [Str ''Widget'', Str ''Gadget'', Str ''Bolt'', Str ''Nut'']),
              (''SKU'', [Str ''W-1'', Str ''G-1'', Str ''B-1'', Str ''N-1'']),
              (''Stock'', [Str ''many'', Num NaN, Str ''-5'', Str ''12''])]\<rparr>"

text \<open>
  A sheet whose stock column holds an infinite value, and a sheet of one column; neither
  has a column for the restock level.
\<close>

definition infinite_stock_sheet :: dataframe where
  "infinite_stock_sheet =
     \<lparr>nrows = 2,
      cols = [(''Qty'', [Num PosInf, Num (IntV 5)]),
              (''Name'', [Str ''Widget'', Str ''Gadget''])]\<rparr>"

definition single_column_sheet :: dataframe where
  "single_column_sheet = \<lparr>nrows = 1, cols = [(''Qty'', [Num (IntV 5)])]\<rparr>"

text \<open>A sheet with a negative quantity.\<close>

definition negative_stock_sheet :: dataframe where
  "negative_stock_sheet =
     \<lparr>nrows = 1,
      cols = [(''Qty'', [Num (IntV (- 5))]),
              (''Name'', [Str ''Widget''])]\<rparr>"

text \<open>A sheet that has a column named \<open>Status\<close> of its own.\<close>

definition status_column_sheet :: dataframe where
  "status_column_sheet =
     \<lparr>nrows = 1,
      cols = [(''Qty'', [Num (IntV 5)]),
              (''Name'', [Str ''Widget'']),
              (''Status'', [Str ''Discontinued''])]\<rparr>"

text \<open>
  The result as the docstring of \<^verbatim>\<open>get_critical_items\<close> words it ("at or below the given
  threshold"): the rows, in order, whose stock value, coerced with parse failures as 0,
  is at most a threshold.
\<close>

definition rows_at_or_below :: "library \<Rightarrow> dataframe \<Rightarrow> cell list \<Rightarrow> number \<Rightarrow> (string \<times> cell) list list" where
  "rows_at_or_below lib df vs threshold =
     map (\<lambda>i. to_dict_records df ! i)
       (filter (\<lambda>i. num_le (fillna 0 (to_numeric lib (vs ! i))) threshold) [0..<nrows df])"

text \<open>A frame with a fractional stock value, and a frame with the stock value 0.\<close>

definition fractional_sheet :: dataframe where
  "fractional_sheet =
     \<lparr>nrows = 1,
      cols = [(''Product Name'', [Str ''Flour (kg)'']),
              (''Available Stock'', [Num (FloatV 10.2)])]\<rparr>"

definition zero_stock_frame :: dataframe where
  "zero_stock_frame =
     \<lparr>nrows = 1,
      cols = [(''Product Name'', [Str ''Widget'']),
              (''Available Stock'', [Num (IntV 0)])]\<rparr>"

text \<open>A frame whose stock column holds texts.\<close>

definition text_stock_frame :: dataframe where
  "text_stock_frame =
     \<lparr>nrows = 3,
      cols = [(''Product Name'', [Str ''Widget'', Str ''Gadget'', Str ''Bolt'']),
              (''Available Stock'', [Str ''many'', Str ''30'', Str ''4''])]\<rparr>"

section \<open>Properties of the Notifier\<close>

text \<open>
  C7: for every list of items, a call with an empty webhook URL (the empty string or
  \<^verbatim>\<open>None\<close>) returns exactly \<open>(False, ''Webhook URL not configured'')\<close> and sends no request,
  whatever the network would answer.
\<close>

theorem trigger_restock_webhook_unconfigured:
  "trigger_restock_webhook post repr (Some []) items = ((False, ''Webhook URL not configured''), [])
   \<and> trigger_restock_webhook post repr None items = ((False, ''Webhook URL not configured''), [])"
  by (simp add: trigger_restock_webhook_def)

text \<open>
  C9: success is reported exactly when a request was sent and answered with a status code
  in the range from 200 (included) to 300 (excluded), and then the message is the fixed
  confirmation; no other status, no exception and no unconfigured URL gives success.
\<close>

theorem trigger_restock_webhook_success:
  "(fst (fst (trigger_restock_webhook post repr webhook_url items)) \<longleftrightarrow>
      (\<exists>url resp. webhook_url = Some url \<and> url \<noteq> [] \<and>
         post \<lparr>req_url = url, req_json = JObj [(''items'', JArr items)], req_timeout = 10\<rparr>
           = Inr resp \<and>
         200 \<le> status_code resp \<and> status_code resp < 300))
   \<and> (fst (fst (trigger_restock_webhook post repr webhook_url items)) \<longleftrightarrow>
        fst (trigger_restock_webhook post repr webhook_url items)
          = (True, ''Restock webhook triggered successfully''))"
  by (auto simp: trigger_restock_webhook_def Let_def split: option.splits sum.splits)



section \<open>Properties of the Normalizer\<close>

subsection \<open>Auxiliary facts about frames\<close>

lemma length_filter_zip:
  "length keep = length vs \<Longrightarrow> length (filter fst (zip keep vs)) = length (filter id keep)"
  by (induction keep vs rule: list_induct2) auto

lemma length_notna_mask [simp]: "length (notna_mask ls df) = nrows df"
  by (simp add: notna_mask_def)

lemma columns_take_rows [simp]: "columns (take_rows keep df) = columns df"
  by (simp add: columns_def take_rows_def comp_def)

lemma nrows_take_rows [simp]: "nrows (take_rows keep df) = length (filter id keep)"
  by (simp add: take_rows_def)

lemma wf_take_rows:
  "wf_frame df \<Longrightarrow> length keep = nrows df \<Longrightarrow> wf_frame (take_rows keep df)"
  by (auto simp: wf_frame_def take_rows_def list_all_iff length_filter_zip)

lemma columns_dropna [simp]: "columns (dropna ls df) = columns df"
  by (simp add: dropna_def)

lemma wf_dropna: "wf_frame df \<Longrightarrow> wf_frame (dropna ls df)"
  by (simp add: dropna_def wf_take_rows)

lemma length_cols_dropna [simp]: "length (cols (dropna ls df)) = length (cols df)"
  by (simp add: dropna_def take_rows_def)

lemma nrows_rename_columns [simp]: "nrows (rename_columns d df) = nrows df"
  by (simp add: rename_columns_def)

lemma columns_rename_columns:
  "columns (rename_columns d df) = map (\<lambda>n. case d n of Some m \<Rightarrow> m | None \<Rightarrow> n) (columns df)"
  by (simp add: rename_columns_def columns_def comp_def)

lemma wf_rename_columns: "wf_frame df \<Longrightarrow> wf_frame (rename_columns d df)"
  by (auto simp: wf_frame_def rename_columns_def list_all_iff)

lemma nrows_setitem [simp]: "nrows (setitem l vs df) = nrows df"
  by (simp add: setitem_def)

lemma wf_setitem: "wf_frame df \<Longrightarrow> length vs = nrows df \<Longrightarrow> wf_frame (setitem l vs df)"
  by (auto simp: wf_frame_def setitem_def list_all_iff)

lemma columns_setitem:
  "columns (setitem l vs df) = (if l \<in> set (columns df) then columns df else columns df @ [l])"
proof -
  have "map fst (map (\<lambda>c. if fst c = l then (fst c, vs) else c) cs) = map fst cs" for cs :: "(string \<times> cell list) list"
    by (induction cs) auto
  then show ?thesis by (simp add: setitem_def columns_def)
qed

lemma set_columns_setitem: "set (columns (setitem l vs df)) = insert l (set (columns df))"
  by (auto simp: columns_setitem)

lemma select_wf:
  "wf_frame df \<Longrightarrow> select l df = [vs] \<Longrightarrow> length vs = nrows df"
proof -
  assume wf: "wf_frame df" and sel: "select l df = [vs]"
  from sel have "vs \<in> set (select l df)" by simp
  then obtain c where "c \<in> set (cols df)" "snd c = vs"
    by (auto simp: select_def)
  with wf show ?thesis by (auto simp: wf_frame_def list_all_iff)
qed

lemma column_is_setitem: "column_is (setitem l vs df) l vs"
proof -
  have "list_all (\<lambda>c. fst c \<noteq> l \<or> snd c = vs) (cols (setitem l vs df))"
    by (force simp: setitem_def list_all_iff columns_def)
  then show ?thesis by (simp add: column_is_def set_columns_setitem)
qed

lemma column_is_setitem_other:
  assumes "l' \<noteq> l" and "column_is df l' vs'"
  shows "column_is (setitem l vs df) l' vs'"
proof -
  from assms have "list_all (\<lambda>c. fst c \<noteq> l' \<or> snd c = vs') (cols (setitem l vs df))"
    by (auto simp: column_is_def setitem_def list_all_iff)
  with assms show ?thesis by (simp add: column_is_def set_columns_setitem)
qed

lemma column_is_select:
  "select l df = [vs] \<Longrightarrow> column_is df l vs"
proof -
  assume sel: "select l df = [vs]"
  have "snd c = vs" if "c \<in> set (cols df)" "fst c = l" for c
  proof -
    from that have "snd c \<in> set (select l df)" by (auto simp: select_def)
    with sel show ?thesis by simp
  qed
  moreover from sel have "l \<in> set (columns df)"
    by (auto simp: select_def columns_def filter_eq_Cons_iff)
  ultimately show ?thesis by (auto simp: column_is_def list_all_iff)
qed

lemma field_column_is:
  assumes "column_is df l vs" and "i < nrows df"
  shows "field (to_dict_records df ! i) l = Some (vs ! i)"
proof -
  let ?row = "map (\<lambda>c. (fst c, snd c ! i)) (cols df)"
  have row: "to_dict_records df ! i = ?row"
    using assms(2) by (simp add: to_dict_records_def)
  from assms(1) have "l \<in> fst ` set (rev ?row)"
    by (force simp: column_is_def columns_def)
  then obtain y where y: "map_of (rev ?row) l = Some y"
    by (metis map_of_eq_None_iff not_Some_eq)
  then have "(l, y) \<in> set (rev ?row)" by (rule map_of_SomeD)
  then obtain c where "c \<in> set (cols df)" "fst c = l" "y = snd c ! i" by auto
  with assms(1) have "y = vs ! i" by (auto simp: column_is_def list_all_iff)
  with y row show ?thesis by (simp add: field_def)
qed

lemma in_to_dict_records:
  "row \<in> set (to_dict_records df) \<Longrightarrow> \<exists>i<nrows df. row = to_dict_records df ! i"
  by (auto simp: to_dict_records_def)

lemma coerce_int_Inr':
  assumes "coerce_int lib df l = Inr xs"
  obtains vs where "select l df = [vs]" and "xs = map (coerce_cell lib) vs"
    and "list_all (\<lambda>c. is_finite (fillna 0 (to_numeric lib c))) vs"
  using assms
  by (auto simp: coerce_int_def astype_int_def coerce_cell_def comp_def list_all_iff
           split: list.splits if_splits)

lemma select_setitem_other:
  assumes "l' \<noteq> l"
  shows "select l' (setitem l vs df) = select l' df"
proof -
  have "filter (\<lambda>c. fst c = l') (map (\<lambda>c. if fst c = l then (fst c, vs) else c) cs)
          = filter (\<lambda>c. fst c = l') cs" for cs :: "(string \<times> cell list) list"
    using assms by (induction cs) auto
  with assms show ?thesis by (simp add: select_def setitem_def)
qed

lemma normalize_frame_cases:
  assumes "normalize_frame lib df = Inr (None, out)"
  obtains c0 c1 df2 df3 sa sr where
    "column_label lib df 0 = Inr c0" and "column_label lib df 1 = Inr c1"
    and "df2 = rename_columns (rename_dict lib (columns df)) (dropna [c0, c1] df)"
    and "''Available Stock'' \<in> set (columns df2)"
    and "df3 = (if ''Restock Level'' \<notin> set (columns df2)
                then setitem ''Restock Level'' (replicate (nrows df2) (Num (IntV 10))) df2
                else df2)"
    and "select ''Available Stock'' df3 = [sa]"
    and "select ''Restock Level'' df3 = [sr]"
    and "out = setitem ''Status''
                 (map Str (map2 status (map (coerce_cell lib) sa) (map (coerce_cell lib) sr)))
                 (setitem ''Restock Level'' (map (\<lambda>n. Num (IntV n)) (map (coerce_cell lib) sr))
                   (setitem ''Available Stock'' (map (\<lambda>n. Num (IntV n)) (map (coerce_cell lib) sa)) df3))"
    and "list_all (\<lambda>c. is_finite (fillna 0 (to_numeric lib c))) sa"
    and "list_all (\<lambda>c. is_finite (fillna 0 (to_numeric lib c))) sr"
proof -
  from assms obtain c0 c1 where c: "column_label lib df 0 = Inr c0" "column_label lib df 1 = Inr c1"
    by (auto simp: normalize_frame_def split: sum.splits)
  define df2 where "df2 = rename_columns (rename_dict lib (columns df)) (dropna [c0, c1] df)"
  define df3 where "df3 = (if ''Restock Level'' \<notin> set (columns df2)
                then setitem ''Restock Level'' (replicate (nrows df2) (Num (IntV 10))) df2
                else df2)"
  from assms c have stock: "''Available Stock'' \<in> set (columns df2)"
    by (auto simp: normalize_frame_def df2_def Let_def split: if_splits)
  with assms c obtain a where a: "coerce_int lib df3 ''Available Stock'' = Inr a"
    by (auto simp: normalize_frame_def df2_def df3_def Let_def split: sum.splits if_splits)
  define df4 where "df4 = setitem ''Available Stock'' (map (\<lambda>n. Num (IntV n)) a) df3"
  from assms c stock a obtain r where r: "coerce_int lib df4 ''Restock Level'' = Inr r"
    by (auto simp: normalize_frame_def df2_def df3_def df4_def Let_def split: sum.splits if_splits)
  from assms c stock a r have out: "out = setitem ''Status'' (map Str (map2 status a r))
      (setitem ''Restock Level'' (map (\<lambda>n. Num (IntV n)) r) df4)"
    by (auto simp: normalize_frame_def df2_def df3_def df4_def Let_def split: sum.splits if_splits)
  from a obtain sa where sa: "select ''Available Stock'' df3 = [sa]" "a = map (coerce_cell lib) sa"
    and fa: "list_all (\<lambda>c. is_finite (fillna 0 (to_numeric lib c))) sa"
    by (rule coerce_int_Inr')
  from r obtain sr where sr: "select ''Restock Level'' df4 = [sr]" "r = map (coerce_cell lib) sr"
    and fr: "list_all (\<lambda>c. is_finite (fillna 0 (to_numeric lib c))) sr"
    by (rule coerce_int_Inr')
  from sr(1) have sr3: "select ''Restock Level'' df3 = [sr]"
    by (simp add: df4_def select_setitem_other)
  show ?thesis
    using c df2_def stock df3_def sa(1) sr3 out fa fr
    unfolding df4_def sa(2) sr(2) by (rule that)
qed

lemma normalize_frame_columns:
  assumes wf: "wf_frame df" and ok: "normalize_frame lib df = Inr (None, out)"
  obtains c0 c1 df2 df3 sa sr where
    "column_label lib df 0 = Inr c0" and "column_label lib df 1 = Inr c1"
    and "df2 = rename_columns (rename_dict lib (columns df)) (dropna [c0, c1] df)"
    and "''Available Stock'' \<in> set (columns df2)"
    and "df3 = (if ''Restock Level'' \<notin> set (columns df2)
                then setitem ''Restock Level'' (replicate (nrows df2) (Num (IntV 10))) df2
                else df2)"
    and "select ''Available Stock'' df3 = [sa]"
    and "select ''Restock Level'' df3 = [sr]"
    and "nrows out = nrows df2" and "length sa = nrows out" and "length sr = nrows out"
    and "column_is out ''Available Stock'' (map (\<lambda>c. Num (IntV (coerce_cell lib c))) sa)"
    and "column_is out ''Restock Level'' (map (\<lambda>c. Num (IntV (coerce_cell lib c))) sr)"
    and "column_is out ''Status''
           (map Str (map2 status (map (coerce_cell lib) sa) (map (coerce_cell lib) sr)))"
    and "list_all (\<lambda>c. is_finite (fillna 0 (to_numeric lib c))) sa"
    and "list_all (\<lambda>c. is_finite (fillna 0 (to_numeric lib c))) sr"
proof -
  from ok obtain c0 c1 df2 df3 sa sr where
    c: "column_label lib df 0 = Inr c0" "column_label lib df 1 = Inr c1"
    and df2: "df2 = rename_columns (rename_dict lib (columns df)) (dropna [c0, c1] df)"
    and stock: "''Available Stock'' \<in> set (columns df2)"
    and df3: "df3 = (if ''Restock Level'' \<notin> set (columns df2)
                then setitem ''Restock Level'' (replicate (nrows df2) (Num (IntV 10))) df2
                else df2)"
    and sa: "select ''Available Stock'' df3 = [sa]"
    and sr: "select ''Restock Level'' df3 = [sr]"
    and out: "out = setitem ''Status''
                 (map Str (map2 status (map (coerce_cell lib) sa) (map (coerce_cell lib) sr)))
                 (setitem ''Restock Level'' (map (\<lambda>n. Num (IntV n)) (map (coerce_cell lib) sr))
                   (setitem ''Available Stock'' (map (\<lambda>n. Num (IntV n)) (map (coerce_cell lib) sa)) df3))"
    and fa: "list_all (\<lambda>c. is_finite (fillna 0 (to_numeric lib c))) sa"
    and fr: "list_all (\<lambda>c. is_finite (fillna 0 (to_numeric lib c))) sr"
    by (rule normalize_frame_cases)
  have wf2: "wf_frame df2"
    using wf by (simp add: df2 wf_rename_columns wf_dropna)
  have wf3: "wf_frame df3"
    using wf2 by (simp add: df3 wf_setitem)
  have n3: "nrows df3 = nrows df2"
    by (simp add: df3)
  have n: "nrows out = nrows df2"
    by (simp add: out n3)
  have la: "length sa = nrows out"
    using select_wf [OF wf3 sa] by (simp add: n n3)
  have lr: "length sr = nrows out"
    using select_wf [OF wf3 sr] by (simp add: n n3)
  have ca: "column_is out ''Available Stock'' (map (\<lambda>c. Num (IntV (coerce_cell lib c))) sa)"
    unfolding out map_map comp_def
    by (rule column_is_setitem_other, simp, rule column_is_setitem_other, simp,
        rule column_is_setitem)
  have cr: "column_is out ''Restock Level'' (map (\<lambda>c. Num (IntV (coerce_cell lib c))) sr)"
    unfolding out map_map comp_def
    by (rule column_is_setitem_other, simp, rule column_is_setitem)
  have cs: "column_is out ''Status''
           (map Str (map2 status (map (coerce_cell lib) sa) (map (coerce_cell lib) sr)))"
    unfolding out by (rule column_is_setitem)
  show ?thesis
    using c df2 stock df3 sa sr n la lr ca cr cs fa fr by (rule that)
qed

lemma normalize_frame_result:
  "normalize_frame lib df = Inr (m, out) \<Longrightarrow> m = None \<or> out = empty_frame"
  by (auto simp: normalize_frame_def Let_def split: sum.splits if_splits)

lemma load_nonempty:
  assumes "0 < nrows (snd (load_data_from_gsheet secret read_csv lib))"
  obtains url df where "secret = Inr url" and "sublist ''/d/'' url"
    and "read_csv (csv_export_url url) = Inr df"
    and "normalize_frame lib df = Inr (None, snd (load_data_from_gsheet secret read_csv lib))"
    and "fst (load_data_from_gsheet secret read_csv lib) = None"
proof -
  from assms obtain url where url: "secret = Inr url" "sublist ''/d/'' url"
    by (auto simp: load_data_from_gsheet_def empty_frame_def split: sum.splits if_splits)
  with assms obtain df where df: "read_csv (csv_export_url url) = Inr df"
    by (auto simp: load_data_from_gsheet_def empty_frame_def split: sum.splits)
  with url assms obtain res where res: "normalize_frame lib df = Inr res"
    by (auto simp: load_data_from_gsheet_def empty_frame_def split: sum.splits)
  with url df have load: "load_data_from_gsheet secret read_csv lib = res"
    by (simp add: load_data_from_gsheet_def)
  obtain m out where mo: "res = (m, out)" by (cases res)
  with res have "m = None \<or> out = empty_frame" by (simp add: normalize_frame_result)
  with assms load mo have "m = None" by (auto simp: empty_frame_def)
  with url df res load mo show ?thesis by (intro that) auto
qed

text \<open>
  C1: in every row of the table that \<^verbatim>\<open>load_data_from_gsheet\<close> returns, the fields
  \<open>Available Stock\<close> and \<open>Restock Level\<close> hold integers \<open>a\<close> and \<open>r\<close>, and the field \<open>Status\<close>
  is \<open>status a r\<close>: a function of these two stored values alone, which is \<open>Critical\<close>
  exactly when \<open>a \<le> 10\<close>, otherwise \<open>Low Stock\<close> exactly when \<open>a < r\<close>, otherwise
  \<open>In Stock\<close>. The frames that \<^verbatim>\<open>read_csv\<close> returns are rectangular.
\<close>

theorem status_from_stock_and_restock:
  assumes csv: "\<And>u df. read_csv u = Inr df \<Longrightarrow> wf_frame df"
    and row: "row \<in> set (to_dict_records (snd (load_data_from_gsheet secret read_csv lib)))"
  shows "\<exists>a r. field row ''Available Stock'' = Some (Num (IntV a))
           \<and> field row ''Restock Level'' = Some (Num (IntV r))
           \<and> field row ''Status'' = Some (Str (status a r))
           \<and> (status a r = ''Critical'' \<longleftrightarrow> a \<le> 10)
           \<and> (status a r = ''Low Stock'' \<longleftrightarrow> 10 < a \<and> a < r)
           \<and> (status a r = ''In Stock'' \<longleftrightarrow> 10 < a \<and> r \<le> a)"
proof -
  let ?out = "snd (load_data_from_gsheet secret read_csv lib)"
  from row obtain i where i: "i < nrows ?out" "row = to_dict_records ?out ! i"
    using in_to_dict_records by blast
  then have "0 < nrows ?out" by simp
  then obtain url df where df: "read_csv (csv_export_url url) = Inr df"
    and ok: "normalize_frame lib df = Inr (None, ?out)"
    by (rule load_nonempty)
  from df have wf: "wf_frame df" by (rule csv)
  from wf ok obtain sa sr where la: "length sa = nrows ?out" and lr: "length sr = nrows ?out"
    and ca: "column_is ?out ''Available Stock'' (map (\<lambda>c. Num (IntV (coerce_cell lib c))) sa)"
    and cr: "column_is ?out ''Restock Level'' (map (\<lambda>c. Num (IntV (coerce_cell lib c))) sr)"
    and cs: "column_is ?out ''Status''
           (map Str (map2 status (map (coerce_cell lib) sa) (map (coerce_cell lib) sr)))"
    by (rule normalize_frame_columns)
  let ?a = "coerce_cell lib (sa ! i)" and ?r = "coerce_cell lib (sr ! i)"
  have "field row ''Available Stock'' = Some (Num (IntV ?a))"
    using field_column_is [OF ca i(1)] i la by simp
  moreover have "field row ''Restock Level'' = Some (Num (IntV ?r))"
    using field_column_is [OF cr i(1)] i lr by simp
  moreover have "field row ''Status'' = Some (Str (status ?a ?r))"
    using field_column_is [OF cs i(1)] i la lr by simp
  moreover have "(status ?a ?r = ''Critical'' \<longleftrightarrow> ?a \<le> 10)
      \<and> (status ?a ?r = ''Low Stock'' \<longleftrightarrow> 10 < ?a \<and> ?a < ?r)
      \<and> (status ?a ?r = ''In Stock'' \<longleftrightarrow> 10 < ?a \<and> ?r \<le> ?a)"
    by (simp add: status_def)
  ultimately show ?thesis by blast
qed

theorem status_from_stock_and_restock_witness:
  "field (to_dict_records (snd (load_data_from_gsheet (Inr example_url)
             (example_read_csv example_sheet) ascii_library)) ! 0) ''Available Stock''
     = Some (Num (IntV 5))
   \<and> field (to_dict_records (snd (load_data_from_gsheet (Inr example_url)
             (example_read_csv example_sheet) ascii_library)) ! 0) ''Restock Level''
     = Some (Num (IntV 10))
   \<and> field (to_dict_records (snd (load_data_from_gsheet (Inr example_url)
             (example_read_csv example_sheet) ascii_library)) ! 0) ''Status''
     = Some (Str (status 5 10))
   \<and> status 5 10 = ''Critical''"
proof -
  let ?out = "snd (load_data_from_gsheet (Inr example_url)
                (example_read_csv example_sheet) ascii_library)"
  have csv: "wf_frame df" if "example_read_csv example_sheet u = Inr df" for u df
  proof -
    from that have "df = example_sheet"
      by (simp add: example_read_csv_def split: if_splits)
    then show ?thesis
      by (simp add: example_sheet_def wf_frame_def)
  qed
  have row: "to_dict_records ?out ! 0 \<in> set (to_dict_records ?out)"
    by code_simp
  have a: "field (to_dict_records ?out ! 0) ''Available Stock'' = Some (Num (IntV 5))"
    by code_simp
  have r: "field (to_dict_records ?out ! 0) ''Restock Level'' = Some (Num (IntV 10))"
    by code_simp
  from status_from_stock_and_restock [where read_csv = "example_read_csv example_sheet", OF csv row]
  show ?thesis
    unfolding a r by (auto simp: status_def)
qed

subsection \<open>Auxiliary facts about the header lookup\<close>

lemma fold_current_cols_Some:
  "fold (\<lambda>c m. m(str_strip lib (str_lower lib c) \<mapsto> c)) cs m0 k = Some h \<Longrightarrow>
     (h \<in> set cs \<and> str_strip lib (str_lower lib h) = k) \<or> m0 k = Some h"
  by (induction cs arbitrary: m0) (fastforce split: if_splits)+

lemma current_cols_Some:
  "current_cols lib cs k = Some h \<Longrightarrow> h \<in> set cs \<and> str_strip lib (str_lower lib h) = k"
  using fold_current_cols_Some [of lib cs Map.empty k h] by (simp add: current_cols_def)

lemma fold_current_cols_other:
  "\<forall>h \<in> set cs. str_strip lib (str_lower lib h) \<noteq> k \<Longrightarrow>
     fold (\<lambda>c m. m(str_strip lib (str_lower lib c) \<mapsto> c)) cs m0 k = m0 k"
  by (induction cs arbitrary: m0) auto

lemma current_cols_None:
  "\<forall>h \<in> set cs. str_strip lib (str_lower lib h) \<noteq> k \<Longrightarrow> current_cols lib cs k = None"
  by (simp add: current_cols_def fold_current_cols_other)

lemma current_cols_last:
  assumes "cs = pre @ h # post" and "\<forall>h' \<in> set post. str_strip lib (str_lower lib h') \<noteq> str_strip lib (str_lower lib h)"
  shows "current_cols lib cs (str_strip lib (str_lower lib h)) = Some h"
  using assms by (simp add: current_cols_def fold_current_cols_other)

lemma current_cols_inj:
  "current_cols lib cs a = Some c \<Longrightarrow> current_cols lib cs a' = Some c \<Longrightarrow> a = a'"
  by (auto dest!: current_cols_Some)

subsection \<open>Auxiliary facts about the renaming dict\<close>

lemma map_aliases_none:
  "\<forall>a \<in> set aliases. cc a = None \<Longrightarrow> map_aliases cc n aliases rd = rd"
  by (induction aliases) auto

lemma map_aliases_first:
  "\<forall>b \<in> set before. cc b = None \<Longrightarrow> cc a = Some c \<Longrightarrow>
     map_aliases cc n (before @ a # after) rd = rd(c \<mapsto> n)"
  by (induction before) auto

lemma map_aliases_cases:
  obtains (none) "\<forall>a \<in> set aliases. cc a = None" "map_aliases cc n aliases rd = rd"
  | (first) before a after c where "aliases = before @ a # after"
      "\<forall>b \<in> set before. cc b = None" "cc a = Some c" "map_aliases cc n aliases rd = rd(c \<mapsto> n)"
proof (cases "\<forall>a \<in> set aliases. cc a = None")
  case True
  then show ?thesis by (intro none) (simp_all add: map_aliases_none)
next
  case False
  then obtain before a after where split: "aliases = before @ a # after"
    and a: "cc a \<noteq> None" and b: "\<forall>b \<in> set before. \<not> cc b \<noteq> None"
    using split_list_first_prop [of aliases "\<lambda>a. cc a \<noteq> None"] by blast
  from a obtain c where c: "cc a = Some c" by auto
  from b have b': "\<forall>b \<in> set before. cc b = None" by simp
  show ?thesis
    using split b' c map_aliases_first [OF b' c] by (intro first [of before a after c]) simp_all
qed

lemma build_rename_dict_Some:
  "fold (\<lambda>(n, al). map_aliases cc n al) cmap rd0 h = Some n \<Longrightarrow>
     rd0 h = Some n \<or>
     (\<exists>al before a after. (n, al) \<in> set cmap \<and> al = before @ a # after \<and>
        (\<forall>b \<in> set before. cc b = None) \<and> cc a = Some h)"
proof (induction cmap arbitrary: rd0)
  case Nil
  then show ?case by simp
next
  case (Cons entry cmap)
  obtain n1 al1 where entry: "entry = (n1, al1)" by (cases entry)
  from Cons.prems have "fold (\<lambda>(n, al). map_aliases cc n al) cmap (map_aliases cc n1 al1 rd0) h = Some n"
    by (simp add: entry)
  from Cons.IH [OF this] consider
    (head) "map_aliases cc n1 al1 rd0 h = Some n"
    | (rest) "\<exists>al before a after. (n, al) \<in> set cmap \<and> al = before @ a # after \<and>
        (\<forall>b \<in> set before. cc b = None) \<and> cc a = Some h"
    by blast
  then show ?case
  proof cases
    case head
    show ?thesis
    proof (cases rule: map_aliases_cases [of al1 cc n1 rd0])
      case none
      with head show ?thesis by simp
    next
      case (first before a after c)
      show ?thesis
      proof (cases "h = c")
        case True
        with head first have "n = n1" by simp
        with True first entry
        have "(n, al1) \<in> set (entry # cmap) \<and> al1 = before @ a # after \<and>
            (\<forall>b \<in> set before. cc b = None) \<and> cc a = Some h"
          by simp
        then show ?thesis by blast
      next
        case False
        with head first show ?thesis by simp
      qed
    qed
  next
    case rest
    then obtain al before a after where "(n, al) \<in> set (entry # cmap) \<and> al = before @ a # after \<and>
        (\<forall>b \<in> set before. cc b = None) \<and> cc a = Some h"
      by auto
    then show ?thesis by blast
  qed
qed

lemma build_rename_dict_keeps:
  "\<forall>entry \<in> set cmap. \<forall>a \<in> set (snd entry). cc a \<noteq> Some c \<Longrightarrow>
     fold (\<lambda>(n, al). map_aliases cc n al) cmap rd0 c = rd0 c"
proof (induction cmap arbitrary: rd0)
  case Nil
  then show ?case by simp
next
  case (Cons entry cmap)
  obtain n1 al1 where entry: "entry = (n1, al1)" by (cases entry)
  have "map_aliases cc n1 al1 rd0 c = rd0 c"
  proof (cases rule: map_aliases_cases [of al1 cc n1 rd0])
    case none
    then show ?thesis by simp
  next
    case (first before a after c')
    with Cons.prems entry have "c' \<noteq> c" by auto
    with first show ?thesis by simp
  qed
  with Cons show ?case by (simp add: entry)
qed

lemma build_rename_dict_first:
  assumes "cmap = pre @ (n, before @ a # after) # post"
    and "\<forall>b \<in> set before. cc b = None" and "cc a = Some c"
    and inj: "\<And>x y. cc x = Some c \<Longrightarrow> cc y = Some c \<Longrightarrow> x = y"
    and later: "\<forall>entry \<in> set post. a \<notin> set (snd entry)"
  shows "build_rename_dict cmap cc c = Some n"
proof -
  have keep: "\<forall>entry \<in> set post. \<forall>a' \<in> set (snd entry). cc a' \<noteq> Some c"
    using inj [OF assms(3)] later by blast
  show ?thesis
    unfolding build_rename_dict_def assms(1)
    by (simp add: build_rename_dict_keeps [OF keep] map_aliases_first [OF assms(2,3)])
qed

lemma alias_unique:
  "distinct (concat (map snd cmap)) \<Longrightarrow> e \<in> set cmap \<Longrightarrow> e' \<in> set cmap \<Longrightarrow>
     a \<in> set (snd e) \<Longrightarrow> a \<in> set (snd e') \<Longrightarrow> e = e'"
  by (induction cmap) auto

lemma aliases_distinct:
  "distinct (concat (map snd cmap)) \<Longrightarrow> e \<in> set cmap \<Longrightarrow> distinct (snd e)"
  by (induction cmap) auto

lemma earlier_in_prefix:
  assumes "before @ a # after = before2 @ b # after2" and "b \<in> set after"
    and "distinct (before @ a # after)"
  shows "a \<in> set before2"
  using assms
  by (auto simp: append_eq_append_conv2 Cons_eq_append_conv append_eq_Cons_conv)

lemma column_map_distinct: "distinct (concat (map snd column_map))"
  by (simp add: column_map_def)

lemma column_map_names: "distinct (map fst column_map)"
  by (simp add: column_map_def)


lemma later_entries_disjoint:
  "distinct (concat (map snd (pre @ e # post))) \<Longrightarrow> a \<in> set (snd e) \<Longrightarrow>
     \<forall>e' \<in> set post. a \<notin> set (snd e')"
  by auto

text \<open>
  C3: header matching is case-insensitive, whitespace-trimmed and ordered by alias
  priority. Take a canonical field of \<open>column_map\<close> and an alias of it such that no header
  matches an earlier alias of the field, and let \<open>h\<close> be the header whose lowercased,
  stripped text is that alias (the last such header, should several have the same
  text). Then the renaming dict maps \<open>h\<close> to the canonical name, the column of \<open>h\<close> carries
  the canonical name after the renaming, and every header that matches a later alias of
  the same field keeps its own name.
\<close>

theorem alias_priority:
  assumes entry: "(internal_name, aliases) \<in> set column_map"
    and split: "aliases = before @ alias # after"
    and earlier: "\<forall>h' \<in> set (columns df). str_strip lib (str_lower lib h') \<notin> set before"
    and cols: "columns df = pre @ h # post"
    and match: "str_strip lib (str_lower lib h) = alias"
    and last: "\<forall>h' \<in> set post. str_strip lib (str_lower lib h') \<noteq> alias"
  shows "rename_dict lib (columns df) h = Some internal_name
    \<and> columns (rename_columns (rename_dict lib (columns df)) df) ! length pre = internal_name
    \<and> (\<forall>j < length (columns df). str_strip lib (str_lower lib (columns df ! j)) \<in> set after \<longrightarrow>
          columns (rename_columns (rename_dict lib (columns df)) df) ! j = columns df ! j)"
proof -
  let ?cc = "current_cols lib (columns df)"
  have stored: "?cc alias = Some h"
    using current_cols_last [where lib = lib, OF cols] last match by simp
  have absent: "\<forall>b \<in> set before. ?cc b = None"
    using earlier by (auto intro!: current_cols_None)
  from entry obtain ms1 ms2 where cmap: "column_map = ms1 @ (internal_name, before @ alias # after) # ms2"
    unfolding split by (auto dest: split_list)
  have later: "\<forall>e' \<in> set ms2. alias \<notin> set (snd e')"
    using column_map_distinct unfolding cmap by (rule later_entries_disjoint) simp
  have renamed: "rename_dict lib (columns df) h = Some internal_name"
    unfolding rename_dict_def
    using cmap absent stored current_cols_inj later by (rule build_rename_dict_first)
  have names: "columns (rename_columns (rename_dict lib (columns df)) df)
      = map (\<lambda>n. case rename_dict lib (columns df) n of Some m \<Rightarrow> m | None \<Rightarrow> n) (columns df)"
    by (rule columns_rename_columns)
  have first: "columns (rename_columns (rename_dict lib (columns df)) df) ! length pre = internal_name"
    unfolding names using renamed by (simp add: cols nth_append)
  have kept: "columns (rename_columns (rename_dict lib (columns df)) df) ! j = columns df ! j"
    if j: "j < length (columns df)" and b: "str_strip lib (str_lower lib (columns df ! j)) \<in> set after" for j
  proof -
    let ?h = "columns df ! j"
    have "rename_dict lib (columns df) ?h = None"
    proof (rule ccontr)
      assume "rename_dict lib (columns df) ?h \<noteq> None"
      then obtain m where "build_rename_dict column_map ?cc ?h = Some m"
        by (auto simp: rename_dict_def)
      then obtain al before2 a2 after2 where al: "(m, al) \<in> set column_map"
        and al_split: "al = before2 @ a2 # after2"
        and absent2: "\<forall>b \<in> set before2. ?cc b = None" and a2: "?cc a2 = Some ?h"
        using build_rename_dict_Some [of ?cc column_map Map.empty ?h m]
        by (auto simp: build_rename_dict_def)
      from a2 have "a2 = str_strip lib (str_lower lib ?h)" by (auto dest: current_cols_Some)
      with b have "a2 \<in> set after" by simp
      then have "a2 \<in> set (snd (internal_name, aliases))" by (simp add: split)
      moreover have "a2 \<in> set (snd (m, al))" by (simp add: al_split)
      ultimately have "(internal_name, aliases) = (m, al)"
        using alias_unique [OF column_map_distinct entry al] by blast
      then have eq: "before @ alias # after = before2 @ a2 # after2"
        using split al_split by simp
      have "distinct (before @ alias # after)"
        using aliases_distinct [OF column_map_distinct entry] by (simp add: split)
      with eq \<open>a2 \<in> set after\<close> have "alias \<in> set before2"
        by (rule earlier_in_prefix)
      with absent2 stored show False by simp
    qed
    then show ?thesis
      unfolding names using j by simp
  qed
  from renamed first kept show ?thesis by blast
qed

theorem alias_priority_witness:
  "rename_dict ascii_library (columns priority_sheet) ''  QTY '' = Some ''Available Stock''
   \<and> columns (rename_columns (rename_dict ascii_library (columns priority_sheet)) priority_sheet) ! 0
       = ''Available Stock''
   \<and> columns (rename_columns (rename_dict ascii_library (columns priority_sheet)) priority_sheet) ! 1
       = ''Inventory''"
proof -
  have entry: "(''Available Stock'',
      [''stock'', ''qty'', ''quantity'', ''inventory'', ''available'', ''on hand'',
       ''available stock(sync with shopify)'']) \<in> set column_map"
    by (simp add: column_map_def)
  have split: "[''stock'', ''qty'', ''quantity'', ''inventory'', ''available'', ''on hand'',
       ''available stock(sync with shopify)'']
     = [''stock''] @ ''qty'' # [''quantity'', ''inventory'', ''available'', ''on hand'',
       ''available stock(sync with shopify)'']"
    by simp
  have earlier: "\<forall>h' \<in> set (columns priority_sheet). str_strip ascii_library (str_lower ascii_library h') \<notin> set [''stock'']"
    by code_simp
  have cols: "columns priority_sheet = [] @ ''  QTY '' # [''Inventory'', ''Name'']"
    by code_simp
  have match: "str_strip ascii_library (str_lower ascii_library ''  QTY '') = ''qty''"
    by code_simp
  have last: "\<forall>h' \<in> set [''Inventory'', ''Name'']. str_strip ascii_library (str_lower ascii_library h') \<noteq> ''qty''"
    by code_simp
  have j: "1 < length (columns priority_sheet)"
    by code_simp
  have later: "str_strip ascii_library (str_lower ascii_library (columns priority_sheet ! 1))
      \<in> set [''quantity'', ''inventory'', ''available'', ''on hand'',
       ''available stock(sync with shopify)'']"
    by code_simp
  have name: "columns priority_sheet ! 1 = ''Inventory''"
    by code_simp
  note priority = alias_priority [OF entry split earlier cols match last]
  from priority have renamed: "rename_dict ascii_library (columns priority_sheet) ''  QTY '' = Some ''Available Stock''"
    by blast
  from priority have first:
    "columns (rename_columns (rename_dict ascii_library (columns priority_sheet)) priority_sheet) ! 0
       = ''Available Stock''"
    by simp
  from priority j later have
    "columns (rename_columns (rename_dict ascii_library (columns priority_sheet)) priority_sheet) ! 1
       = columns priority_sheet ! 1"
    by blast
  with renamed first name show ?thesis by simp
qed

subsection \<open>Auxiliary facts about the labels after the renaming\<close>

lemma rename_dict_Some_matches:
  assumes "rename_dict lib cs h = Some n"
  shows "h \<in> set cs \<and> header_matches lib n h"
proof -
  from assms obtain al before a after where al: "(n, al) \<in> set column_map"
    and split: "al = before @ a # after" and stored: "current_cols lib cs a = Some h"
    using build_rename_dict_Some [of "current_cols lib cs" column_map Map.empty h n]
    by (auto simp: rename_dict_def build_rename_dict_def)
  from split have a: "a \<in> set al" by simp
  have "map_of column_map n = Some al"
    using column_map_names al by (rule map_of_is_SomeI)
  with a stored show ?thesis
    by (auto simp: header_matches_def dest: current_cols_Some)
qed

lemma renamed_label_absent:
  assumes "\<forall>h \<in> set (columns df). \<not> header_matches lib n h \<and> h \<noteq> n"
  shows "n \<notin> set (columns (rename_columns (rename_dict lib (columns df)) df))"
proof
  assume "n \<in> set (columns (rename_columns (rename_dict lib (columns df)) df))"
  then obtain h where h: "h \<in> set (columns df)"
    and n: "n = (case rename_dict lib (columns df) h of Some m \<Rightarrow> m | None \<Rightarrow> h)"
    by (auto simp: columns_rename_columns)
  show False
  proof (cases "rename_dict lib (columns df) h")
    case None
    with n have "h = n" by simp
    with h assms show False by blast
  next
    case (Some m)
    with n have "rename_dict lib (columns df) h = Some n" by simp
    then have "header_matches lib n h" by (simp add: rename_dict_Some_matches)
    with h assms show False by simp
  qed
qed

lemma restock_level_matches:
  "str_strip lib (str_lower lib ''Restock Level'') = ''restock level'' \<Longrightarrow>
     header_matches lib ''Restock Level'' ''Restock Level''"
  by (simp add: header_matches_def column_map_def)

lemma load_success:
  assumes "secret = Inr url" and "sublist ''/d/'' url"
    and "read_csv (csv_export_url url) = Inr df"
    and "load_data_from_gsheet secret read_csv lib = (None, out)"
  shows "normalize_frame lib df = Inr (None, out)"
  using assms by (auto simp: load_data_from_gsheet_def split: sum.splits)

lemma restock_level_default_loaded:
  assumes literal: "str_strip lib (str_lower lib ''Restock Level'') = ''restock level''"
    and secret: "secret = Inr url" and url: "sublist ''/d/'' url"
    and csv: "read_csv (csv_export_url url) = Inr df" and wf: "wf_frame df"
    and none: "\<forall>h \<in> set (columns df). \<not> header_matches lib ''Restock Level'' h"
    and ok: "load_data_from_gsheet secret read_csv lib = (None, out)"
  shows "''Restock Level'' \<in> set (columns out)
    \<and> column_is out ''Restock Level'' (replicate (nrows out) (Num (IntV 10)))
    \<and> (\<forall>row \<in> set (to_dict_records out). field row ''Restock Level'' = Some (Num (IntV 10)))"
proof -
  have norm: "normalize_frame lib df = Inr (None, out)"
    using secret url csv ok by (rule load_success)
  from wf norm obtain c0 c1 df2 df3 sr where
    df2: "df2 = rename_columns (rename_dict lib (columns df)) (dropna [c0, c1] df)"
    and df3: "df3 = (if ''Restock Level'' \<notin> set (columns df2)
                then setitem ''Restock Level'' (replicate (nrows df2) (Num (IntV 10))) df2
                else df2)"
    and sr: "select ''Restock Level'' df3 = [sr]"
    and n: "nrows out = nrows df2"
    and cr: "column_is out ''Restock Level'' (map (\<lambda>c. Num (IntV (coerce_cell lib c))) sr)"
    by (rule normalize_frame_columns)
  have "\<forall>h \<in> set (columns (dropna [c0, c1] df)).
      \<not> header_matches lib ''Restock Level'' h \<and> h \<noteq> ''Restock Level''"
    using none restock_level_matches [OF literal] by auto
  then have absent: "''Restock Level'' \<notin> set (columns df2)"
    unfolding df2 using renamed_label_absent [where df = "dropna [c0, c1] df" and n = "''Restock Level''" and lib = lib] by simp
  then have "column_is df3 ''Restock Level'' (replicate (nrows df2) (Num (IntV 10)))"
    by (simp add: df3 column_is_setitem)
  moreover from sr have "column_is df3 ''Restock Level'' sr"
    by (rule column_is_select)
  ultimately have sr_eq: "sr = replicate (nrows out) (Num (IntV 10))"
    using sr n by (auto simp: column_is_def select_def list_all_iff filter_eq_Cons_iff)
  have ten: "coerce_cell lib (Num (IntV 10)) = 10"
    by (simp add: coerce_cell_def to_numeric_def fillna_def int_of_number_def wrap64_def)
  from cr have col: "column_is out ''Restock Level'' (replicate (nrows out) (Num (IntV 10)))"
    by (simp add: sr_eq ten)
  have "field row ''Restock Level'' = Some (Num (IntV 10))"
    if "row \<in> set (to_dict_records out)" for row
  proof -
    from that obtain i where i: "i < nrows out" "row = to_dict_records out ! i"
      using in_to_dict_records by blast
    with field_column_is [OF col i(1)] show ?thesis by simp
  qed
  with col show ?thesis by (simp add: column_is_def)
qed

text \<open>
  C6, as amended: the raw table \<open>df\<close> has no header that matches an alias of
  \<open>Restock Level\<close>. Then the value of \<open>Restock Level\<close> is 10 in every row of the table that
  the load returns; and when the load reports no error, the returned table has the
  column \<open>Restock Level\<close>, with the value 10 throughout. (The first hypothesis is a fact of
  Python: the text \<open>Restock Level\<close>, lowercased and stripped, is the alias
  \<open>restock level\<close>, so that a header which is the canonical name itself matches.)
\<close>

theorem restock_level_default:
  assumes literal: "str_strip lib (str_lower lib ''Restock Level'') = ''restock level''"
    and secret: "secret = Inr url" and url: "sublist ''/d/'' url"
    and csv: "read_csv (csv_export_url url) = Inr df" and wf: "wf_frame df"
    and none: "\<forall>h \<in> set (columns df). \<not> header_matches lib ''Restock Level'' h"
  shows "(\<forall>row \<in> set (to_dict_records (snd (load_data_from_gsheet secret read_csv lib))).
            field row ''Restock Level'' = Some (Num (IntV 10)))
    \<and> (fst (load_data_from_gsheet secret read_csv lib) = None \<longrightarrow>
          ''Restock Level'' \<in> set (columns (snd (load_data_from_gsheet secret read_csv lib)))
          \<and> column_is (snd (load_data_from_gsheet secret read_csv lib)) ''Restock Level''
                (replicate (nrows (snd (load_data_from_gsheet secret read_csv lib)))
                   (Num (IntV 10))))"
proof -
  let ?out = "snd (load_data_from_gsheet secret read_csv lib)"
  have loaded: "''Restock Level'' \<in> set (columns ?out)
      \<and> column_is ?out ''Restock Level'' (replicate (nrows ?out) (Num (IntV 10)))
      \<and> (\<forall>row \<in> set (to_dict_records ?out). field row ''Restock Level'' = Some (Num (IntV 10)))"
    if "fst (load_data_from_gsheet secret read_csv lib) = None"
  proof -
    from that have "load_data_from_gsheet secret read_csv lib = (None, ?out)"
      by (simp add: prod_eq_iff)
    with literal secret url csv wf none show ?thesis
      by (rule restock_level_default_loaded)
  qed
  have "field row ''Restock Level'' = Some (Num (IntV 10))"
    if row: "row \<in> set (to_dict_records ?out)" for row
  proof -
    from row obtain i where "i < nrows ?out"
      using in_to_dict_records by blast
    then have "0 < nrows ?out" by simp
    then have "fst (load_data_from_gsheet secret read_csv lib) = None"
      by (rule load_nonempty)
    from loaded [OF this] row show ?thesis by blast
  qed
  with loaded show ?thesis by blast
qed

theorem restock_level_default_witness:
  "load_data_from_gsheet (Inr example_url) (example_read_csv no_restock_sheet) ascii_library
     = (None,
        \<lparr>nrows = 2,
         cols = [(''Available Stock'', [Num (IntV 5), Num (IntV 40)]),
                 (''Product Name'', [Str ''Widget'', Str ''Gadget'']),
                 (''Restock Level'', [Num (IntV 10), Num (IntV 10)]),
                 (''Status'', [Str ''Critical'', Str ''In Stock''])]\<rparr>)
   \<and> column_is
        \<lparr>nrows = 2,
         cols = [(''Available Stock'', [Num (IntV 5), Num (IntV 40)]),
                 (''Product Name'', [Str ''Widget'', Str ''Gadget'']),
                 (''Restock Level'', [Num (IntV 10), Num (IntV 10)]),
                 (''Status'', [Str ''Critical'', Str ''In Stock''])]\<rparr>
        ''Restock Level'' (replicate 2 (Num (IntV 10)))"
proof -
  have url: "sublist ''/d/'' example_url"
    by code_simp
  have csv: "example_read_csv no_restock_sheet (csv_export_url example_url) = Inr no_restock_sheet"
    by code_simp
  have wf: "wf_frame no_restock_sheet"
    by code_simp
  have none: "\<forall>h \<in> set (columns no_restock_sheet). \<not> header_matches ascii_library ''Restock Level'' h"
    by code_simp
  have literal: "str_strip ascii_library (str_lower ascii_library ''Restock Level'') = ''restock level''"
    by code_simp
  have ok: "load_data_from_gsheet (Inr example_url) (example_read_csv no_restock_sheet) ascii_library
     = (None,
        \<lparr>nrows = 2,
         cols = [(''Available Stock'', [Num (IntV 5), Num (IntV 40)]),
                 (''Product Name'', [Str ''Widget'', Str ''Gadget'']),
                 (''Restock Level'', [Num (IntV 10), Num (IntV 10)]),
                 (''Status'', [Str ''Critical'', Str ''In Stock''])]\<rparr>)"
    by code_simp
  from restock_level_default
         [where secret = "Inr example_url" and read_csv = "example_read_csv no_restock_sheet"
            and lib = ascii_library, OF literal refl url csv wf none] ok
  show ?thesis by simp
qed

text \<open>
  C6 as stated fails: a stock column in the sheet is not enough for the column
  \<open>Restock Level\<close> to be in the result. In a sheet whose stock column holds an infinite
  value, and in a sheet of one column, the header \<open>Qty\<close> matches an alias of
  \<open>Available Stock\<close> and no header matches an alias of \<open>Restock Level\<close>; the conversion of
  line 96, respectively the second label of line 51, raises, and the load returns the
  empty frame, which has no column \<open>Restock Level\<close>.
\<close>

theorem restock_level_absent_counterexample:
  "list_ex (header_matches ascii_library ''Available Stock'') (columns infinite_stock_sheet)
   \<and> \<not> list_ex (header_matches ascii_library ''Restock Level'') (columns infinite_stock_sheet)
   \<and> snd (load_data_from_gsheet (Inr example_url) (example_read_csv infinite_stock_sheet)
           ascii_library) = empty_frame
   \<and> list_ex (header_matches ascii_library ''Available Stock'') (columns single_column_sheet)
   \<and> \<not> list_ex (header_matches ascii_library ''Restock Level'') (columns single_column_sheet)
   \<and> snd (load_data_from_gsheet (Inr example_url) (example_read_csv single_column_sheet)
           ascii_library) = empty_frame
   \<and> ''Restock Level'' \<notin> set (columns empty_frame)
   \<and> to_dict_records empty_frame = []"
  by code_simp

text \<open>
  C5, as amended: the raw table \<open>df\<close> has no header that matches an alias of
  \<open>Available Stock\<close> and no header that is \<open>Available Stock\<close> itself. Then the load
  returns the empty frame together with a message; for a table of at least two
  columns the message is the one of line 89. Nothing is raised: every exception of the
  body ends in the handler of line 107, whose result is again a message and the empty
  frame.
\<close>

theorem missing_stock_column:
  assumes secret: "secret = Inr url" and url: "sublist ''/d/'' url"
    and csv: "read_csv (csv_export_url url) = Inr df"
    and none: "\<forall>h \<in> set (columns df). \<not> header_matches lib ''Available Stock'' h \<and> h \<noteq> ''Available Stock''"
  shows "snd (load_data_from_gsheet secret read_csv lib) = empty_frame
    \<and> fst (load_data_from_gsheet secret read_csv lib) \<noteq> None
    \<and> (2 \<le> length (columns df) \<longrightarrow>
         fst (load_data_from_gsheet secret read_csv lib) = Some no_stock_message)"
proof -
  have load: "load_data_from_gsheet secret read_csv lib =
      (case normalize_frame lib df of
         Inl e \<Rightarrow> (Some (''Error loading data from Google Sheets: '' @ exc_str e), empty_frame)
       | Inr result \<Rightarrow> result)"
    using secret url csv by (simp add: load_data_from_gsheet_def split: sum.splits)
  have absent: "''Available Stock'' \<notin> set (columns (rename_columns (rename_dict lib (columns (dropna ls df))) (dropna ls df)))" for ls
    using none renamed_label_absent [where df = "dropna ls df" and n = "''Available Stock''" and lib = lib] by simp
  have short: "\<exists>e. normalize_frame lib df = Inl e" if "length (cols df) < 2"
    using that by (cases "length (cols df) = 0") (auto simp: normalize_frame_def column_label_def)
  have long: "normalize_frame lib df = Inr (Some no_stock_message, empty_frame)"
    if "2 \<le> length (cols df)"
  proof -
    from that have "cols df \<noteq> []" and "1 < length (cols df)" by auto
    with absent show ?thesis
      by (simp add: normalize_frame_def column_label_def Let_def)
  qed
  show ?thesis
  proof (cases "2 \<le> length (cols df)")
    case True
    with long show ?thesis by (simp add: load columns_def)
  next
    case False
    then have "length (cols df) < 2" by simp
    from short [OF this] False show ?thesis by (auto simp: load columns_def)
  qed
qed

theorem missing_stock_column_witness:
  "load_data_from_gsheet (Inr example_url) (example_read_csv no_stock_sheet) ascii_library
     = (Some no_stock_message, empty_frame)"
proof -
  have url: "sublist ''/d/'' example_url"
    by code_simp
  have csv: "example_read_csv no_stock_sheet (csv_export_url example_url) = Inr no_stock_sheet"
    by code_simp
  have none: "\<forall>h \<in> set (columns no_stock_sheet).
      \<not> header_matches ascii_library ''Available Stock'' h \<and> h \<noteq> ''Available Stock''"
    by code_simp
  have two: "2 \<le> length (columns no_stock_sheet)"
    by code_simp
  from missing_stock_column
         [where secret = "Inr example_url" and read_csv = "example_read_csv no_stock_sheet"
            and lib = ascii_library, OF refl url csv none] two
  show ?thesis by (simp add: prod_eq_iff)
qed

text \<open>
  C5 as stated fails: the header \<open>Available Stock\<close> matches no alias of the field (the
  list of line 60 does not hold \<open>available stock\<close>), and yet line 88 finds the column
  and the load returns a table with a row, and no message.
\<close>

theorem literal_stock_header_counterexample:
  "\<not> list_ex (header_matches ascii_library ''Available Stock'') (columns literal_stock_sheet)
   \<and> load_data_from_gsheet (Inr example_url) (example_read_csv literal_stock_sheet) ascii_library
     = (None,
        \<lparr>nrows = 1,
         cols = [(''Available Stock'', [Num (IntV 7)]),
                 (''Product Name'', [Str ''Widget'']),
                 (''Restock Level'', [Num (IntV 10)]),
                 (''Status'', [Str ''Critical''])]\<rparr>)"
  by code_simp

subsection \<open>Auxiliary facts about the converted columns\<close>

lemma select_singleton_mem: "select l df = [vs] \<Longrightarrow> (l, vs) \<in> set (cols df)"
proof -
  assume "select l df = [vs]"
  then have "vs \<in> set (select l df)" by simp
  then show ?thesis by (auto simp: select_def)
qed

lemma cols_rename_mem:
  "(n, vs) \<in> set (cols (rename_columns d df)) \<Longrightarrow>
     \<exists>h. (h, vs) \<in> set (cols df) \<and> n = (case d h of Some m \<Rightarrow> m | None \<Rightarrow> h)"
proof -
  assume "(n, vs) \<in> set (cols (rename_columns d df))"
  then obtain c where c: "c \<in> set (cols df)"
    and eq: "(n, vs) = (case d (fst c) of Some m \<Rightarrow> m | None \<Rightarrow> fst c, snd c)"
    by (auto simp: rename_columns_def)
  from eq have "snd c = vs" and "n = (case d (fst c) of Some m \<Rightarrow> m | None \<Rightarrow> fst c)"
    by simp_all
  with c have "(fst c, vs) \<in> set (cols df) \<and> n = (case d (fst c) of Some m \<Rightarrow> m | None \<Rightarrow> fst c)"
    by auto
  then show ?thesis by blast
qed

lemma renamed_source:
  assumes "(n, vs) \<in> set (cols (rename_columns (rename_dict lib (columns df)) df))"
  obtains h where "(h, vs) \<in> set (cols df)" and "h = n \<or> header_matches lib n h"
proof -
  from assms obtain h where h: "(h, vs) \<in> set (cols df)"
    and n: "n = (case rename_dict lib (columns df) h of Some m \<Rightarrow> m | None \<Rightarrow> h)"
    using cols_rename_mem by blast
  have "h = n \<or> header_matches lib n h"
  proof (cases "rename_dict lib (columns df) h")
    case None
    with n show ?thesis by simp
  next
    case (Some m)
    with n have "rename_dict lib (columns df) h = Some n" by simp
    then show ?thesis by (simp add: rename_dict_Some_matches)
  qed
  with h show ?thesis by (rule that)
qed

lemma select_setitem_new:
  assumes "l \<notin> set (columns df)" and "select l (setitem l vs df) = [sr]"
  shows "sr = vs"
proof -
  have "column_is (setitem l vs df) l vs" by (rule column_is_setitem)
  moreover from assms(2) have "(l, sr) \<in> set (cols (setitem l vs df))"
    by (rule select_singleton_mem)
  ultimately show ?thesis by (auto simp: column_is_def list_all_iff)
qed

lemma wrap64_range: "- (2 ^ 63) \<le> wrap64 n \<and> wrap64 n < 2 ^ 63"
proof -
  have "0 \<le> (n + 2 ^ 63) mod (2 ^ 64 :: int)" and "(n + 2 ^ 63) mod (2 ^ 64 :: int) < 2 ^ 64"
    by simp_all
  then show ?thesis by (simp add: wrap64_def)
qed

lemma wrap64_id: "- (2 ^ 63) \<le> n \<Longrightarrow> n < 2 ^ 63 \<Longrightarrow> wrap64 n = n"
proof -
  assume "- (2 ^ 63) \<le> n" and "n < 2 ^ 63"
  then have "0 \<le> n + 2 ^ 63" and "n + 2 ^ 63 < (2 ^ 64 :: int)" by simp_all
  then have "(n + 2 ^ 63) mod (2 ^ 64 :: int) = n + 2 ^ 63" by (rule mod_pos_pos_trivial)
  then show ?thesis by (simp add: wrap64_def)
qed

lemma int_of_number_range:
  "- (2 ^ 63) \<le> int_of_number lib x \<and> int_of_number lib x < 2 ^ 63"
  using wrap64_range by (cases x) (simp_all add: int_of_number_def)

lemma coerce_cell_range: "- (2 ^ 63) \<le> coerce_cell lib c \<and> coerce_cell lib c < 2 ^ 63"
  unfolding coerce_cell_def by (rule int_of_number_range)

lemma coerce_cell_nan: "to_numeric lib c = NaN \<Longrightarrow> coerce_cell lib c = 0"
  by (simp add: coerce_cell_def fillna_def int_of_number_def wrap64_def)

lemma coerce_cell_int:
  "to_numeric lib c = IntV n \<Longrightarrow> - (2 ^ 63) \<le> n \<Longrightarrow> n < 2 ^ 63 \<Longrightarrow> coerce_cell lib c = n"
  by (simp add: coerce_cell_def fillna_def int_of_number_def wrap64_id)

lemma coerce_cell_float:
  "to_numeric lib c = FloatV x \<Longrightarrow> - (2 ^ 63) \<le> py_trunc x \<Longrightarrow> py_trunc x < 2 ^ 63 \<Longrightarrow>
     coerce_cell lib c = py_trunc x"
  by (simp add: coerce_cell_def fillna_def int_of_number_def)

lemma fold_current_cols_present:
  "h \<in> set cs \<or> m0 (str_strip lib (str_lower lib h)) \<noteq> None \<Longrightarrow>
     fold (\<lambda>c m. m(str_strip lib (str_lower lib c) \<mapsto> c)) cs m0 (str_strip lib (str_lower lib h))
       \<noteq> None"
  by (induction cs arbitrary: m0) auto

lemma current_cols_present:
  "h \<in> set cs \<Longrightarrow> current_cols lib cs (str_strip lib (str_lower lib h)) \<noteq> None"
  by (simp add: current_cols_def fold_current_cols_present)

lemma matched_label_renamed:
  assumes h: "h \<in> set cs" and m: "header_matches lib n h"
  shows "\<exists>h' \<in> set cs. rename_dict lib cs h' = Some n"
proof -
  let ?cc = "current_cols lib cs"
  from m obtain aliases where al: "map_of column_map n = Some aliases"
    and key: "str_strip lib (str_lower lib h) \<in> set aliases"
    by (auto simp: header_matches_def split: option.splits)
  from al have entry: "(n, aliases) \<in> set column_map" by (rule map_of_SomeD)
  from h have "?cc (str_strip lib (str_lower lib h)) \<noteq> None" by (rule current_cols_present)
  with key have "\<exists>a \<in> set aliases. ?cc a \<noteq> None" by blast
  then obtain before a after where split: "aliases = before @ a # after"
    and a: "?cc a \<noteq> None" and b: "\<forall>b \<in> set before. \<not> ?cc b \<noteq> None"
    using split_list_first_prop [of aliases "\<lambda>a. ?cc a \<noteq> None"] by blast
  from a obtain h' where stored: "?cc a = Some h'" by auto
  from b have absent: "\<forall>b \<in> set before. ?cc b = None" by simp
  from entry obtain ms1 ms2 where cmap: "column_map = ms1 @ (n, before @ a # after) # ms2"
    unfolding split by (auto dest: split_list)
  have later: "\<forall>e' \<in> set ms2. a \<notin> set (snd e')"
    using column_map_distinct unfolding cmap by (rule later_entries_disjoint) simp
  have "rename_dict lib cs h' = Some n"
    unfolding rename_dict_def
    using cmap absent stored current_cols_inj later by (rule build_rename_dict_first)
  moreover from stored have "h' \<in> set cs" by (simp add: current_cols_Some)
  ultimately show ?thesis by blast
qed

lemma matched_label_present:
  assumes "h \<in> set (columns df)" and "header_matches lib n h"
  shows "n \<in> set (columns (rename_columns (rename_dict lib (columns df)) df))"
proof -
  from assms obtain h' where h': "h' \<in> set (columns df)"
    and r: "rename_dict lib (columns df) h' = Some n"
    using matched_label_renamed by blast
  have "n = (case rename_dict lib (columns df) h' of Some m \<Rightarrow> m | None \<Rightarrow> h')"
    by (simp add: r)
  with h' show ?thesis
    unfolding columns_rename_columns by (auto intro: image_eqI)
qed

text \<open>
  C2, as amended: after a load without error, the column \<open>Available Stock\<close> of the
  result is, row by row, the conversion of a column \<open>sa\<close> of the pruned source table (the
  one whose header is \<open>Available Stock\<close> or matches an alias of it), and the column
  \<open>Restock Level\<close> is the conversion of a column \<open>sr\<close>: a source column whose header is
  \<open>Restock Level\<close> or matches an alias of it when the renamed table has that label (as it
  has when a header matches an alias), and the constant 10 when it has not (as when no
  header is \<open>Restock Level\<close> or matches an alias). Every stored value is an integer of 64
  bits; a source value from which no number is read (a text that is no number, a missing
  value) gives 0; a source integer within the range is stored as it is and a float within
  the range without its fraction, negative or not: nothing raises a negative number to
  0.
\<close>

theorem stock_and_restock_coerced:
  assumes secret: "secret = Inr url" and url: "sublist ''/d/'' url"
    and csv: "read_csv (csv_export_url url) = Inr df" and wf: "wf_frame df"
    and ok: "load_data_from_gsheet secret read_csv lib = (None, out)"
  shows "\<exists>c0 c1 ha sa sr.
      column_label lib df 0 = Inr c0 \<and> column_label lib df 1 = Inr c1
    \<and> (ha, sa) \<in> set (cols (dropna [c0, c1] df))
    \<and> (ha = ''Available Stock'' \<or> header_matches lib ''Available Stock'' ha)
    \<and> column_is out ''Available Stock'' (map (\<lambda>c. Num (IntV (coerce_cell lib c))) sa)
    \<and> column_is out ''Restock Level'' (map (\<lambda>c. Num (IntV (coerce_cell lib c))) sr)
    \<and> (if ''Restock Level''
            \<in> set (columns (rename_columns (rename_dict lib (columns df)) (dropna [c0, c1] df)))
        then \<exists>hr. (hr, sr) \<in> set (cols (dropna [c0, c1] df))
               \<and> (hr = ''Restock Level'' \<or> header_matches lib ''Restock Level'' hr)
        else sr = replicate (nrows out) (Num (IntV 10)))
    \<and> (list_ex (header_matches lib ''Restock Level'') (columns df) \<longrightarrow>
         ''Restock Level''
           \<in> set (columns (rename_columns (rename_dict lib (columns df)) (dropna [c0, c1] df))))
    \<and> (\<not> list_ex (\<lambda>h. h = ''Restock Level'' \<or> header_matches lib ''Restock Level'' h)
            (columns df) \<longrightarrow>
         ''Restock Level''
           \<notin> set (columns (rename_columns (rename_dict lib (columns df)) (dropna [c0, c1] df))))
    \<and> (\<forall>c \<in> set sa \<union> set sr.
          - (2 ^ 63) \<le> coerce_cell lib c \<and> coerce_cell lib c < 2 ^ 63
        \<and> (to_numeric lib c = NaN \<longrightarrow> coerce_cell lib c = 0)
        \<and> (\<forall>n. to_numeric lib c = IntV n \<and> - (2 ^ 63) \<le> n \<and> n < 2 ^ 63 \<longrightarrow>
               coerce_cell lib c = n)
        \<and> (\<forall>x. to_numeric lib c = FloatV x \<and> - (2 ^ 63) \<le> py_trunc x \<and> py_trunc x < 2 ^ 63 \<longrightarrow>
               coerce_cell lib c = py_trunc x))"
proof -
  have norm: "normalize_frame lib df = Inr (None, out)"
    using secret url csv ok by (rule load_success)
  from wf norm obtain c0 c1 df2 df3 sa sr where
    c: "column_label lib df 0 = Inr c0" "column_label lib df 1 = Inr c1"
    and df2: "df2 = rename_columns (rename_dict lib (columns df)) (dropna [c0, c1] df)"
    and df3: "df3 = (if ''Restock Level'' \<notin> set (columns df2)
                then setitem ''Restock Level'' (replicate (nrows df2) (Num (IntV 10))) df2
                else df2)"
    and sa: "select ''Available Stock'' df3 = [sa]"
    and sr: "select ''Restock Level'' df3 = [sr]"
    and n: "nrows out = nrows df2"
    and ca: "column_is out ''Available Stock'' (map (\<lambda>c. Num (IntV (coerce_cell lib c))) sa)"
    and cr: "column_is out ''Restock Level'' (map (\<lambda>c. Num (IntV (coerce_cell lib c))) sr)"
    by (rule normalize_frame_columns)
  let ?df1 = "dropna [c0, c1] df"
  have cols1: "columns ?df1 = columns df"
    by (simp add: columns_def dropna_def take_rows_def comp_def)
  have df2': "df2 = rename_columns (rename_dict lib (columns ?df1)) ?df1"
    by (simp add: df2 cols1)
  from sa have "select ''Available Stock'' df2 = [sa]"
    by (simp add: df3 select_setitem_other split: if_splits)
  then have "(''Available Stock'', sa) \<in> set (cols df2)"
    by (rule select_singleton_mem)
  then obtain ha where ha: "(ha, sa) \<in> set (cols ?df1)"
    "ha = ''Available Stock'' \<or> header_matches lib ''Available Stock'' ha"
    unfolding df2' by (rule renamed_source)
  have restock: "if ''Restock Level'' \<in> set (columns df2)
        then \<exists>hr. (hr, sr) \<in> set (cols ?df1)
               \<and> (hr = ''Restock Level'' \<or> header_matches lib ''Restock Level'' hr)
        else sr = replicate (nrows out) (Num (IntV 10))"
  proof (cases "''Restock Level'' \<in> set (columns df2)")
    case False
    with sr have "sr = replicate (nrows df2) (Num (IntV 10))"
      by (simp add: df3 select_setitem_new)
    with False show ?thesis by (simp add: n)
  next
    case True
    with sr have "(''Restock Level'', sr) \<in> set (cols df2)"
      by (simp add: df3 select_singleton_mem)
    then obtain hr where "(hr, sr) \<in> set (cols ?df1)"
      "hr = ''Restock Level'' \<or> header_matches lib ''Restock Level'' hr"
      unfolding df2' by (rule renamed_source)
    with True show ?thesis by auto
  qed
  have present: "''Restock Level'' \<in> set (columns df2)"
    if "list_ex (header_matches lib ''Restock Level'') (columns df)"
  proof -
    from that obtain h where "h \<in> set (columns ?df1)" and "header_matches lib ''Restock Level'' h"
      by (auto simp: list_ex_iff cols1)
    then show ?thesis
      unfolding df2' by (rule matched_label_present)
  qed
  have absent: "''Restock Level'' \<notin> set (columns df2)"
    if "\<not> list_ex (\<lambda>h. h = ''Restock Level'' \<or> header_matches lib ''Restock Level'' h) (columns df)"
  proof -
    from that have "\<forall>h \<in> set (columns ?df1).
        \<not> header_matches lib ''Restock Level'' h \<and> h \<noteq> ''Restock Level''"
      by (auto simp: list_ex_iff cols1)
    then show ?thesis
      unfolding df2' by (rule renamed_label_absent)
  qed
  have cells: "\<forall>c \<in> set sa \<union> set sr.
          - (2 ^ 63) \<le> coerce_cell lib c \<and> coerce_cell lib c < 2 ^ 63
        \<and> (to_numeric lib c = NaN \<longrightarrow> coerce_cell lib c = 0)
        \<and> (\<forall>n. to_numeric lib c = IntV n \<and> - (2 ^ 63) \<le> n \<and> n < 2 ^ 63 \<longrightarrow>
               coerce_cell lib c = n)
        \<and> (\<forall>x. to_numeric lib c = FloatV x \<and> - (2 ^ 63) \<le> py_trunc x \<and> py_trunc x < 2 ^ 63 \<longrightarrow>
               coerce_cell lib c = py_trunc x)"
    using coerce_cell_range coerce_cell_nan coerce_cell_int coerce_cell_float by blast
  from restock present absent
  have labels: "(if ''Restock Level''
            \<in> set (columns (rename_columns (rename_dict lib (columns df)) (dropna [c0, c1] df)))
        then \<exists>hr. (hr, sr) \<in> set (cols (dropna [c0, c1] df))
               \<and> (hr = ''Restock Level'' \<or> header_matches lib ''Restock Level'' hr)
        else sr = replicate (nrows out) (Num (IntV 10)))
    \<and> (list_ex (header_matches lib ''Restock Level'') (columns df) \<longrightarrow>
         ''Restock Level''
           \<in> set (columns (rename_columns (rename_dict lib (columns df)) (dropna [c0, c1] df))))
    \<and> (\<not> list_ex (\<lambda>h. h = ''Restock Level'' \<or> header_matches lib ''Restock Level'' h)
            (columns df) \<longrightarrow>
         ''Restock Level''
           \<notin> set (columns (rename_columns (rename_dict lib (columns df)) (dropna [c0, c1] df))))"
    unfolding df2 by simp
  from c ha ca cr labels cells show ?thesis by blast
qed

text \<open>
  C2 as stated fails: a quantity of -5 in the sheet is -5 in the returned table.
\<close>

theorem negative_stock_counterexample:
  "load_data_from_gsheet (Inr example_url) (example_read_csv negative_stock_sheet) ascii_library
     = (None,
        \<lparr>nrows = 1,
         cols = [(''Available Stock'', [Num (IntV (- 5))]),
                 (''Product Name'', [Str ''Widget'']),
                 (''Restock Level'', [Num (IntV 10)]),
                 (''Status'', [Str ''Critical''])]\<rparr>)
   \<and> field (to_dict_records (snd (load_data_from_gsheet (Inr example_url)
               (example_read_csv negative_stock_sheet) ascii_library)) ! 0) ''Available Stock''
     = Some (Num (IntV (- 5)))"
  by code_simp

theorem stock_and_restock_coerced_witness:
  "load_data_from_gsheet (Inr example_url) (example_read_csv mixed_stock_sheet) ascii_library
     = (None,
        \<lparr>nrows = 4,
         cols = [(''Product Name'', [Str ''Widget'', Str ''Gadget'', Str ''Bolt'', Str ''Nut'']),
                 (''SKU'', [Str ''W-1'', Str ''G-1'', Str ''B-1'', Str ''N-1'']),
                 (''Available Stock'', [Num (IntV 0), Num (IntV 0), Num (IntV (- 5)), Num (IntV 12)]),
                 (''Restock Level'', [Num (IntV 10), Num (IntV 10), Num (IntV 10), Num (IntV 10)]),
                 (''Status'', [Str ''Critical'', Str ''Critical'', Str ''Critical'', Str ''In Stock''])]\<rparr>)
   \<and> (\<exists>c0 c1 ha sa sr.
      column_label ascii_library mixed_stock_sheet 0 = Inr c0 \<and> column_label ascii_library mixed_stock_sheet 1 = Inr c1
    \<and> (ha, sa) \<in> set (cols (dropna [c0, c1] mixed_stock_sheet))
    \<and> (ha = ''Available Stock'' \<or> header_matches ascii_library ''Available Stock'' ha)
    \<and> column_is \<lparr>nrows = 4,
         cols = [(''Product Name'', [Str ''Widget'', Str ''Gadget'', Str ''Bolt'', Str ''Nut'']),
                 (''SKU'', [Str ''W-1'', Str ''G-1'', Str ''B-1'', Str ''N-1'']),
                 (''Available Stock'', [Num (IntV 0), Num (IntV 0), Num (IntV (- 5)), Num (IntV 12)]),
                 (''Restock Level'', [Num (IntV 10), Num (IntV 10), Num (IntV 10), Num (IntV 10)]),
                 (''Status'', [Str ''Critical'', Str ''Critical'', Str ''Critical'', Str ''In Stock''])]\<rparr> ''Available Stock'' (map (\<lambda>c. Num (IntV (coerce_cell ascii_library c))) sa)
    \<and> column_is \<lparr>nrows = 4,
         cols = [(''Product Name'', [Str ''Widget'', Str ''Gadget'', Str ''Bolt'', Str ''Nut'']),
                 (''SKU'', [Str ''W-1'', Str ''G-1'', Str ''B-1'', Str ''N-1'']),
                 (''Available Stock'', [Num (IntV 0), Num (IntV 0), Num (IntV (- 5)), Num (IntV 12)]),
                 (''Restock Level'', [Num (IntV 10), Num (IntV 10), Num (IntV 10), Num (IntV 10)]),
                 (''Status'', [Str ''Critical'', Str ''Critical'', Str ''Critical'', Str ''In Stock''])]\<rparr> ''Restock Level'' (map (\<lambda>c. Num (IntV (coerce_cell ascii_library c))) sr)
    \<and> (if ''Restock Level''
            \<in> set (columns (rename_columns (rename_dict ascii_library (columns mixed_stock_sheet)) (dropna [c0, c1] mixed_stock_sheet)))
        then \<exists>hr. (hr, sr) \<in> set (cols (dropna [c0, c1] mixed_stock_sheet))
               \<and> (hr = ''Restock Level'' \<or> header_matches ascii_library ''Restock Level'' hr)
        else sr = replicate (nrows \<lparr>nrows = 4,
         cols = [(''Product Name'', [Str ''Widget'', Str ''Gadget'', Str ''Bolt'', Str ''Nut'']),
                 (''SKU'', [Str ''W-1'', Str ''G-1'', Str ''B-1'', Str ''N-1'']),
                 (''Available Stock'', [Num (IntV 0), Num (IntV 0), Num (IntV (- 5)), Num (IntV 12)]),
                 (''Restock Level'', [Num (IntV 10), Num (IntV 10), Num (IntV 10), Num (IntV 10)]),
                 (''Status'', [Str ''Critical'', Str ''Critical'', Str ''Critical'', Str ''In Stock''])]\<rparr>) (Num (IntV 10)))
    \<and> (list_ex (header_matches ascii_library ''Restock Level'') (columns mixed_stock_sheet) \<longrightarrow>
         ''Restock Level''
           \<in> set (columns (rename_columns (rename_dict ascii_library (columns mixed_stock_sheet)) (dropna [c0, c1] mixed_stock_sheet))))
    \<and> (\<not> list_ex (\<lambda>h. h = ''Restock Level'' \<or> header_matches ascii_library ''Restock Level'' h)
            (columns mixed_stock_sheet) \<longrightarrow>
         ''Restock Level''
           \<notin> set (columns (rename_columns (rename_dict ascii_library (columns mixed_stock_sheet)) (dropna [c0, c1] mixed_stock_sheet))))
    \<and> (\<forall>c \<in> set sa \<union> set sr.
          - (2 ^ 63) \<le> coerce_cell ascii_library c \<and> coerce_cell ascii_library c < 2 ^ 63
        \<and> (to_numeric ascii_library c = NaN \<longrightarrow> coerce_cell ascii_library c = 0)
        \<and> (\<forall>n. to_numeric ascii_library c = IntV n \<and> - (2 ^ 63) \<le> n \<and> n < 2 ^ 63 \<longrightarrow>
               coerce_cell ascii_library c = n)
        \<and> (\<forall>x. to_numeric ascii_library c = FloatV x \<and> - (2 ^ 63) \<le> py_trunc x \<and> py_trunc x < 2 ^ 63 \<longrightarrow>
               coerce_cell ascii_library c = py_trunc x)))"
proof -
  have url: "sublist ''/d/'' example_url"
    by code_simp
  have csv: "example_read_csv mixed_stock_sheet (csv_export_url example_url) = Inr mixed_stock_sheet"
    by code_simp
  have wf: "wf_frame mixed_stock_sheet"
    by code_simp
  have ok: "load_data_from_gsheet (Inr example_url) (example_read_csv mixed_stock_sheet) ascii_library
     = (None,
        \<lparr>nrows = 4,
         cols = [(''Product Name'', [Str ''Widget'', Str ''Gadget'', Str ''Bolt'', Str ''Nut'']),
                 (''SKU'', [Str ''W-1'', Str ''G-1'', Str ''B-1'', Str ''N-1'']),
                 (''Available Stock'', [Num (IntV 0), Num (IntV 0), Num (IntV (- 5)), Num (IntV 12)]),
                 (''Restock Level'', [Num (IntV 10), Num (IntV 10), Num (IntV 10), Num (IntV 10)]),
                 (''Status'', [Str ''Critical'', Str ''Critical'', Str ''Critical'', Str ''In Stock''])]\<rparr>)"
    by code_simp
  show ?thesis
  proof (rule conjI)
    show "load_data_from_gsheet (Inr example_url) (example_read_csv mixed_stock_sheet) ascii_library
     = (None,
        \<lparr>nrows = 4,
         cols = [(''Product Name'', [Str ''Widget'', Str ''Gadget'', Str ''Bolt'', Str ''Nut'']),
                 (''SKU'', [Str ''W-1'', Str ''G-1'', Str ''B-1'', Str ''N-1'']),
                 (''Available Stock'', [Num (IntV 0), Num (IntV 0), Num (IntV (- 5)), Num (IntV 12)]),
                 (''Restock Level'', [Num (IntV 10), Num (IntV 10), Num (IntV 10), Num (IntV 10)]),
                 (''Status'', [Str ''Critical'', Str ''Critical'', Str ''Critical'', Str ''In Stock''])]\<rparr>)"
      by (rule ok)
  next
    show "\<exists>c0 c1 ha sa sr.
      column_label ascii_library mixed_stock_sheet 0 = Inr c0 \<and> column_label ascii_library mixed_stock_sheet 1 = Inr c1
    \<and> (ha, sa) \<in> set (cols (dropna [c0, c1] mixed_stock_sheet))
    \<and> (ha = ''Available Stock'' \<or> header_matches ascii_library ''Available Stock'' ha)
    \<and> column_is \<lparr>nrows = 4,
         cols = [(''Product Name'', [Str ''Widget'', Str ''Gadget'', Str ''Bolt'', Str ''Nut'']),
                 (''SKU'', [Str ''W-1'', Str ''G-1'', Str ''B-1'', Str ''N-1'']),
                 (''Available Stock'', [Num (IntV 0), Num (IntV 0), Num (IntV (- 5)), Num (IntV 12)]),
                 (''Restock Level'', [Num (IntV 10), Num (IntV 10), Num (IntV 10), Num (IntV 10)]),
                 (''Status'', [Str ''Critical'', Str ''Critical'', Str ''Critical'', Str ''In Stock''])]\<rparr> ''Available Stock'' (map (\<lambda>c. Num (IntV (coerce_cell ascii_library c))) sa)
    \<and> column_is \<lparr>nrows = 4,
         cols = [(''Product Name'', [Str ''Widget'', Str ''Gadget'', Str ''Bolt'', Str ''Nut'']),
                 (''SKU'', [Str ''W-1'', Str ''G-1'', Str ''B-1'', Str ''N-1'']),
                 (''Available Stock'', [Num (IntV 0), Num (IntV 0), Num (IntV (- 5)), Num (IntV 12)]),
                 (''Restock Level'', [Num (IntV 10), Num (IntV 10), Num (IntV 10), Num (IntV 10)]),
                 (''Status'', [Str ''Critical'', Str ''Critical'', Str ''Critical'', Str ''In Stock''])]\<rparr> ''Restock Level'' (map (\<lambda>c. Num (IntV (coerce_cell ascii_library c))) sr)
    \<and> (if ''Restock Level''
            \<in> set (columns (rename_columns (rename_dict ascii_library (columns mixed_stock_sheet)) (dropna [c0, c1] mixed_stock_sheet)))
        then \<exists>hr. (hr, sr) \<in> set (cols (dropna [c0, c1] mixed_stock_sheet))
               \<and> (hr = ''Restock Level'' \<or> header_matches ascii_library ''Restock Level'' hr)
        else sr = replicate (nrows \<lparr>nrows = 4,
         cols = [(''Product Name'', [Str ''Widget'', Str ''Gadget'', Str ''Bolt'', Str ''Nut'']),
                 (''SKU'', [Str ''W-1'', Str ''G-1'', Str ''B-1'', Str ''N-1'']),
                 (''Available Stock'', [Num (IntV 0), Num (IntV 0), Num (IntV (- 5)), Num (IntV 12)]),
                 (''Restock Level'', [Num (IntV 10), Num (IntV 10), Num (IntV 10), Num (IntV 10)]),
                 (''Status'', [Str ''Critical'', Str ''Critical'', Str ''Critical'', Str ''In Stock''])]\<rparr>) (Num (IntV 10)))
    \<and> (list_ex (header_matches ascii_library ''Restock Level'') (columns mixed_stock_sheet) \<longrightarrow>
         ''Restock Level''
           \<in> set (columns (rename_columns (rename_dict ascii_library (columns mixed_stock_sheet)) (dropna [c0, c1] mixed_stock_sheet))))
    \<and> (\<not> list_ex (\<lambda>h. h = ''Restock Level'' \<or> header_matches ascii_library ''Restock Level'' h)
            (columns mixed_stock_sheet) \<longrightarrow>
         ''Restock Level''
           \<notin> set (columns (rename_columns (rename_dict ascii_library (columns mixed_stock_sheet)) (dropna [c0, c1] mixed_stock_sheet))))
    \<and> (\<forall>c \<in> set sa \<union> set sr.
          - (2 ^ 63) \<le> coerce_cell ascii_library c \<and> coerce_cell ascii_library c < 2 ^ 63
        \<and> (to_numeric ascii_library c = NaN \<longrightarrow> coerce_cell ascii_library c = 0)
        \<and> (\<forall>n. to_numeric ascii_library c = IntV n \<and> - (2 ^ 63) \<le> n \<and> n < 2 ^ 63 \<longrightarrow>
               coerce_cell ascii_library c = n)
        \<and> (\<forall>x. to_numeric ascii_library c = FloatV x \<and> - (2 ^ 63) \<le> py_trunc x \<and> py_trunc x < 2 ^ 63 \<longrightarrow>
               coerce_cell ascii_library c = py_trunc x))"
      by (rule stock_and_restock_coerced
         [where secret = "Inr example_url" and read_csv = "example_read_csv mixed_stock_sheet"
            and lib = ascii_library, OF refl url csv wf ok])
  qed
qed

subsection \<open>Auxiliary facts about the positions of the columns\<close>

lemma setitem_nth:
  assumes "j < length (cols df)"
  shows "cols (setitem l vs df) ! j = (if fst (cols df ! j) = l then (l, vs) else cols df ! j)"
proof (cases "l \<in> set (columns df)")
  case True
  with assms show ?thesis by (simp add: setitem_def)
next
  case False
  with assms have "fst (cols df ! j) \<noteq> l"
    by (auto simp: columns_def)
  with assms False show ?thesis by (simp add: setitem_def nth_append)
qed

lemma setitem_length: "length (cols df) \<le> length (cols (setitem l vs df))"
  by (simp add: setitem_def)

lemma dropna_nth:
  assumes "j < length (cols df)"
  shows "cols (dropna ls df) ! j =
    (fst (cols df ! j), map snd (filter fst (zip (notna_mask ls df) (snd (cols df ! j)))))"
  using assms by (simp add: dropna_def take_rows_def)

lemma rename_columns_nth:
  assumes "j < length (cols df)"
  shows "cols (rename_columns d df) ! j =
    (case d (fst (cols df ! j)) of Some n \<Rightarrow> n | None \<Rightarrow> fst (cols df ! j), snd (cols df ! j))"
  using assms by (simp add: rename_columns_def)

lemma length_cols_rename_columns [simp]:
  "length (cols (rename_columns d df)) = length (cols df)"
  by (simp add: rename_columns_def)

lemma column_label_nth: "column_label lib df i = Inr c \<Longrightarrow> c = columns df ! i"
  by (simp add: column_label_def split: if_splits)

lemma unmatched_not_renamed:
  assumes "\<forall>n. \<not> header_matches lib n h"
  shows "rename_dict lib cs h = None"
proof (cases "rename_dict lib cs h")
  case None
  then show ?thesis .
next
  case (Some n)
  then have "header_matches lib n h" by (simp add: rename_dict_Some_matches)
  with assms show ?thesis by simp
qed

text \<open>
  What a load without error keeps of the raw table: every column is still in the result,
  at its position. Its label is the canonical name when the renaming dict has its header
  (one renaming), and its own header otherwise; a header that matches no alias of any
  field is not in the dict. A column that is not renamed and is not called
  \<open>Available Stock\<close>, \<open>Restock Level\<close> or \<open>Status\<close> keeps its values in all the rows that the
  pruning of line 51 keeps. Columns with one of these three names are rewritten by lines
  96 to 102.
\<close>

lemma unmatched_columns_kept:
  assumes secret: "secret = Inr url" and url: "sublist ''/d/'' url"
    and csv: "read_csv (csv_export_url url) = Inr df"
    and ok: "load_data_from_gsheet secret read_csv lib = (None, out)"
    and j: "j < length (cols df)" and col: "cols df ! j = (h, vs)"
  shows "j < length (cols out)
    \<and> fst (cols out ! j) = (case rename_dict lib (columns df) h of Some n \<Rightarrow> n | None \<Rightarrow> h)
    \<and> ((\<forall>n. \<not> header_matches lib n h) \<longrightarrow> rename_dict lib (columns df) h = None)
    \<and> (rename_dict lib (columns df) h = None
         \<and> h \<notin> {''Available Stock'', ''Restock Level'', ''Status''} \<longrightarrow>
        cols out ! j =
          (h, map snd (filter fst (zip (notna_mask [columns df ! 0, columns df ! 1] df) vs))))"
proof -
  have norm: "normalize_frame lib df = Inr (None, out)"
    using secret url csv ok by (rule load_success)
  then obtain c0 c1 df2 df3 a r s where
    c: "column_label lib df 0 = Inr c0" "column_label lib df 1 = Inr c1"
    and df2: "df2 = rename_columns (rename_dict lib (columns df)) (dropna [c0, c1] df)"
    and df3: "df3 = (if ''Restock Level'' \<notin> set (columns df2)
                then setitem ''Restock Level'' (replicate (nrows df2) (Num (IntV 10))) df2
                else df2)"
    and out: "out = setitem ''Status'' s (setitem ''Restock Level'' r
                (setitem ''Available Stock'' a df3))"
    by (rule normalize_frame_cases) blast
  let ?new = "case rename_dict lib (columns df) h of Some n \<Rightarrow> n | None \<Rightarrow> h"
  let ?pruned = "map snd (filter fst (zip (notna_mask [columns df ! 0, columns df ! 1] df) vs))"
  from c have c0: "c0 = columns df ! 0" and c1: "c1 = columns df ! 1"
    by (simp_all add: column_label_nth)
  have col1: "cols (dropna [c0, c1] df) ! j = (h, ?pruned)"
    using j col by (simp add: dropna_nth c0 c1)
  have j2: "j < length (cols df2)"
    using j by (simp add: df2)
  have col2: "cols df2 ! j = (?new, ?pruned)"
    using j col1 by (simp add: df2 rename_columns_nth split: option.splits)
  have j3: "j < length (cols df3)"
    using j2 setitem_length [of df2] by (auto simp: df3 intro: less_le_trans)
  have col3: "cols df3 ! j = (if ?new = ''Restock Level''
      then (''Restock Level'', replicate (nrows df2) (Num (IntV 10))) else (?new, ?pruned))
      \<or> cols df3 ! j = (?new, ?pruned)"
    using j2 col2 by (simp add: df3 setitem_nth)
  let ?df4 = "setitem ''Available Stock'' a df3"
  let ?df5 = "setitem ''Restock Level'' r ?df4"
  have j4: "j < length (cols ?df4)"
    using j3 setitem_length [of df3] by (rule less_le_trans)
  have j5: "j < length (cols ?df5)"
    using j4 setitem_length [of ?df4] by (rule less_le_trans)
  have j6: "j < length (cols out)"
    unfolding out using j5 setitem_length [of ?df5] by (rule less_le_trans)
  have name3: "fst (cols df3 ! j) = ?new"
    using col3 by (auto split: if_splits)
  have name: "fst (cols out ! j) = ?new"
    unfolding out using name3 j3 j4 j5 by (simp add: setitem_nth)
  have same: "cols out ! j = (h, ?pruned)"
    if none: "rename_dict lib (columns df) h = None"
      and other: "h \<notin> {''Available Stock'', ''Restock Level'', ''Status''}"
  proof -
    from none have new: "?new = h" by simp
    with col3 other have "cols df3 ! j = (h, ?pruned)" by auto
    with other show ?thesis
      unfolding out using j3 j4 j5 by (simp add: setitem_nth)
  qed
  show ?thesis
  proof (intro conjI impI)
    show "j < length (cols out)" by (rule j6)
    show "fst (cols out ! j) = ?new" by (rule name)
    show "rename_dict lib (columns df) h = None" if "\<forall>n. \<not> header_matches lib n h"
      using that by (rule unmatched_not_renamed)
    show "cols out ! j = (h, ?pruned)"
      if "rename_dict lib (columns df) h = None
          \<and> h \<notin> {''Available Stock'', ''Restock Level'', ''Status''}"
      using that by (intro same) simp_all
  qed
qed

text \<open>
  C4 fails in the code: the docstring of \<^verbatim>\<open>load_data_from_gsheet\<close> says that it "keeps
  all other retailer data", and line 100 assigns \<^verbatim>\<open>df['Status']\<close> whatever the sheet holds.
  The source column \<open>Status\<close> of this sheet matches no alias of any field and keeps its
  name and its position, but its value \<open>Discontinued\<close> is lost: the result holds the
  computed status \<open>Critical\<close> in its place.
\<close>

theorem status_column_overwritten:
  "\<not> list_ex (\<lambda>n. header_matches ascii_library n ''Status'') (map fst column_map)
   \<and> cols status_column_sheet ! 2 = (''Status'', [Str ''Discontinued''])
   \<and> load_data_from_gsheet (Inr example_url) (example_read_csv status_column_sheet) ascii_library
     = (None,
        \<lparr>nrows = 1,
         cols = [(''Available Stock'', [Num (IntV 5)]),
                 (''Product Name'', [Str ''Widget'']),
                 (''Status'', [Str ''Critical'']),
                 (''Restock Level'', [Num (IntV 10)])]\<rparr>)"
  by code_simp

section \<open>Properties of \<^verbatim>\<open>get_critical_items\<close>\<close>

subsection \<open>Auxiliary facts about the selection of rows\<close>

lemma filter_zip_nth:
  "length keep = length vs \<Longrightarrow>
     map snd (filter fst (zip keep vs)) = map (\<lambda>i. vs ! i) (filter (\<lambda>i. keep ! i) [0..<length keep])"
proof (induction keep vs rule: list_induct2)
  case Nil
  then show ?case by simp
next
  case (Cons k keep v vs)
  have "[0..<length (k # keep)] = 0 # map Suc [0..<length keep]"
    by (simp add: upt_conv_Cons map_Suc_upt del: upt_Suc)
  with Cons show ?case by (simp add: filter_map comp_def)
qed

lemma length_filter_index:
  "length (filter (\<lambda>i. keep ! i) [0..<length keep]) = length (filter id keep)"
proof -
  have "length (map snd (filter fst (zip keep keep))) = length (filter id keep)"
    by (simp add: length_filter_zip)
  then show ?thesis by (simp add: filter_zip_nth)
qed

lemma take_rows_records:
  assumes wf: "wf_frame df" and len: "length keep = nrows df"
  shows "to_dict_records (take_rows keep df)
    = map (\<lambda>i. to_dict_records df ! i) (filter (\<lambda>i. keep ! i) [0..<nrows df])"
proof -
  let ?idx = "filter (\<lambda>i. keep ! i) [0..<nrows df]"
  have m: "nrows (take_rows keep df) = length ?idx"
    using len length_filter_index [of keep] by simp
  have pruned: "map snd (filter fst (zip keep (snd c))) = map (\<lambda>i. snd c ! i) ?idx"
    if "c \<in> set (cols df)" for c
  proof -
    from wf that have "length keep = length (snd c)"
      by (simp add: wf_frame_def list_all_iff len)
    then show ?thesis using len by (simp add: filter_zip_nth)
  qed
  have bound: "?idx ! k < nrows df" if "k < length ?idx" for k
  proof -
    from that have "?idx ! k \<in> set ?idx" by (rule nth_mem)
    then show ?thesis by simp
  qed
  have row: "to_dict_records (take_rows keep df) ! k = to_dict_records df ! (?idx ! k)"
    if k: "k < length ?idx" for k
  proof -
    have "to_dict_records (take_rows keep df) ! k
        = map (\<lambda>c. (fst c, map snd (filter fst (zip keep (snd c))) ! k)) (cols df)"
      using k m by (simp add: to_dict_records_def take_rows_def comp_def)
    also have "\<dots> = map (\<lambda>c. (fst c, snd c ! (?idx ! k))) (cols df)"
      using k by (simp add: pruned)
    also have "\<dots> = to_dict_records df ! (?idx ! k)"
      using bound [OF k] by (simp add: to_dict_records_def)
    finally show ?thesis .
  qed
  show ?thesis
  proof (rule nth_equalityI)
    show "length (to_dict_records (take_rows keep df))
        = length (map (\<lambda>i. to_dict_records df ! i) ?idx)"
      using m by (simp add: to_dict_records_def)
  next
    fix k
    assume "k < length (to_dict_records (take_rows keep df))"
    then have "k < length ?idx"
      using m by (simp add: to_dict_records_def)
    then show "to_dict_records (take_rows keep df) ! k
        = map (\<lambda>i. to_dict_records df ! i) ?idx ! k"
      by (simp add: row)
  qed
qed

text \<open>
  What the function computes: the result is the empty list for \<open>None\<close>, for an empty frame
  and for a frame without a column \<open>Available Stock\<close>. For a frame with rows in which the
  label selects one column \<open>vs\<close>, and a threshold that \<^verbatim>\<open>int\<close> converts to the integer \<open>t\<close> (an
  integer is itself, a finite float loses its fraction), the function raises nothing and
  returns exactly the rows, in order, whose stock value, coerced with parse failures as
  0, is at most \<open>t\<close>, not those at most the threshold.
\<close>

lemma get_critical_items_rows:
  "get_critical_items lib frame_fallback None threshold = Inr []
   \<and> (frame_empty df \<or> ''Available Stock'' \<notin> set (columns df) \<longrightarrow>
        get_critical_items lib frame_fallback (Some df) threshold = Inr [])
   \<and> (\<not> frame_empty df \<and> wf_frame df \<and> select ''Available Stock'' df = [vs]
        \<and> py_int threshold = Inr t \<longrightarrow>
        get_critical_items lib frame_fallback (Some df) threshold
          = Inr (rows_at_or_below lib df vs (IntV t)))
   \<and> py_int (IntV n) = Inr n \<and> py_int (FloatV x) = Inr (py_trunc x)"
proof (intro conjI impI)
  show "get_critical_items lib frame_fallback None threshold = Inr []"
    by (simp add: get_critical_items_def)
  show "get_critical_items lib frame_fallback (Some df) threshold = Inr []"
    if "frame_empty df \<or> ''Available Stock'' \<notin> set (columns df)"
    using that by (auto simp: get_critical_items_def)
  show "py_int (IntV n) = Inr n" and "py_int (FloatV x) = Inr (py_trunc x)"
    by (simp_all add: py_int_def)
  show "get_critical_items lib frame_fallback (Some df) threshold
          = Inr (rows_at_or_below lib df vs (IntV t))"
    if h: "\<not> frame_empty df \<and> wf_frame df \<and> select ''Available Stock'' df = [vs]
        \<and> py_int threshold = Inr t"
  proof -
    let ?keep = "map (\<lambda>c. num_le (fillna 0 (to_numeric lib c)) (IntV t)) vs"
    from h have sel: "select ''Available Stock'' df = [vs]" and wf: "wf_frame df" by simp_all
    from sel have "(''Available Stock'', vs) \<in> set (cols df)"
      by (rule select_singleton_mem)
    then have label: "''Available Stock'' \<in> set (columns df)"
      by (force simp: columns_def)
    have len: "length ?keep = nrows df"
      using select_wf [OF wf sel] by simp
    have "get_critical_items lib frame_fallback (Some df) threshold
        = Inr (to_dict_records (take_rows ?keep df))"
      using h label by (simp add: get_critical_items_def)
    also have "to_dict_records (take_rows ?keep df) = rows_at_or_below lib df vs (IntV t)"
    proof -
      have "filter (\<lambda>i. ?keep ! i) [0..<nrows df]
          = filter (\<lambda>i. num_le (fillna 0 (to_numeric lib (vs ! i))) (IntV t)) [0..<nrows df]"
        using len by (intro filter_cong) auto
      then show ?thesis
        by (simp add: take_rows_records [OF wf len] rows_at_or_below_def)
    qed
    finally show ?thesis .
  qed
qed

text \<open>
  C10 fails in the code: the docstring of \<^verbatim>\<open>get_critical_items\<close> promises the records "at or
  below the given threshold", and line 123 compares with \<^verbatim>\<open>int(threshold)\<close>. With the
  threshold 10.5 the comparison is with 10, so the row with the stock value 10.2 is not
  returned although 10.2 is at most the threshold; with the threshold -0.5 the
  comparison is with 0, so the row with the stock value 0 is returned although 0 is more
  than the threshold. The fallback of line 126 compares with the threshold itself.
\<close>

theorem get_critical_items_truncates_threshold:
  "get_critical_items ascii_library (\<lambda>df t. Inr []) (Some fractional_sheet) (FloatV 10.5) = Inr []
   \<and> rows_at_or_below ascii_library fractional_sheet [Num (FloatV 10.2)] (FloatV 10.5)
     = [[(''Product Name'', Str ''Flour (kg)''), (''Available Stock'', Num (FloatV 10.2))]]
   \<and> get_critical_items ascii_library (\<lambda>df t. Inr []) (Some zero_stock_frame) (FloatV (- 0.5))
     = Inr [[(''Product Name'', Str ''Widget''), (''Available Stock'', Num (IntV 0))]]
   \<and> rows_at_or_below ascii_library zero_stock_frame [Num (IntV 0)] (FloatV (- 0.5)) = []"
  by code_simp

text \<open>
  The function can also raise: for a threshold that \<^verbatim>\<open>int\<close> does not convert, line 126
  compares the texts of the column with the number, outside of the \<^verbatim>\<open>try\<close>.
\<close>

lemma get_critical_items_fallback_raises:
  "get_critical_items lib frame_fallback (Some text_stock_frame) PosInf
     = Inl (PyExc TypeError (error_text lib (TextCompared PosInf)))"
  by (simp add: get_critical_items_def frame_empty_def text_stock_frame_def columns_def
        select_def py_int_def series_le_def)

end
